theory Spec2Isabelle
  imports Complex_Main
begin

section \<open>Data model (app/models/issue.py, app/schemas/issue.py)\<close>

text \<open>
  A Python \<open>str\<close> is a sequence of Unicode code points, and \<open>len\<close> counts code points;
  it is modelled as a list of code points. \<open>ustr\<close> turns a literal of the source into
  such a list. A \<open>datetime\<close> is an abstract instant, \<open>bytes\<close> a list of octets.
\<close>

type_synonym codepoint = nat
type_synonym pystr = "codepoint list"
type_synonym datetime = int
type_synonym bytes = "char list"

definition ustr :: "string \<Rightarrow> pystr" where
  "ustr s = map of_char s"

datatype IssueType = WATER | ELECTRICITY | ROAD | GARBAGE

datatype IssueStatus =
    REPORTED
  | ASSIGNED
  | REPRESENTATIVE_ACKNOWLEDGED
  | PWD_WORKING
  | PWD_COMPLETED
  | REPRESENTATIVE_REVIEWED

datatype UserRole = USER | REPRESENTATIVE | PWD_WORKER | ADMIN

datatype LocalityType = WARD | VILLAGE

text \<open>
  The tables. A row read from the database carries its primary key, so the \<open>id\<close> column
  of a stored row is an \<open>int\<close>; nullable columns are options. Field names are the
  source's, prefixed with the table where two tables share a name.
\<close>

record Locality =
  locality_pk :: int
  locality_name :: pystr
  locality_type :: LocalityType
  locality_is_active :: bool

record User =
  user_pk :: int
  user_name :: pystr
  mobile_number :: pystr
  role :: UserRole
  is_active :: bool
  is_verified :: bool
  user_locality_id :: "int option"

record Issue =
  issue_pk :: int
  issue_type :: IssueType
  description :: pystr
  latitude :: real
  longitude :: real
  locality_id :: "int option"
  status :: IssueStatus
  user_id :: "int option"
  assigned_parshad_id :: "int option"
  assignment_notes :: "pystr option"
  progress_notes :: "pystr option"
  completion_description :: "pystr option"
  completion_photo_url :: "pystr option"
  completed_at :: "datetime option"
  completed_by_id :: "int option"
  created_at :: datetime
  updated_at :: datetime

record IssuePhoto =
  photo_pk :: int
  photo_issue_id :: int
  photo_url :: pystr
  filename :: pystr
  file_size :: int
  content_type :: pystr
  photo_created_at :: datetime

text \<open>The response schemas of app/schemas/issue.py.\<close>

record IssuePhotoResponse =
  pr_id :: int
  pr_photo_url :: pystr
  pr_filename :: pystr
  pr_file_size :: int
  pr_content_type :: pystr
  pr_created_at :: datetime

record IssueResponse =
  r_id :: int
  r_issue_type :: IssueType
  r_description :: pystr
  r_latitude :: real
  r_longitude :: real
  r_locality_id :: "int option"
  r_locality_name :: "pystr option"
  r_locality_type :: "pystr option"
  r_status :: IssueStatus
  r_user_id :: "int option"
  r_assigned_parshad_id :: "int option"
  r_assignment_message :: "pystr option"
  r_completion_description :: "pystr option"
  r_completion_photo_url :: "pystr option"
  r_completed_at :: "datetime option"
  r_completed_by_id :: "int option"
  r_created_at :: datetime
  r_updated_at :: datetime
  r_photos :: "IssuePhotoResponse list"

section \<open>The environment of a request\<close>

text \<open>
  An uploaded file (\<open>fastapi.UploadFile\<close>): file name and declared content type may be
  absent; \<open>read\<close> after \<open>seek(0)\<close> returns the whole content again.
\<close>

record UploadFile =
  upload_filename :: "pystr option"
  upload_content_type :: "pystr option"
  upload_content :: bytes

text \<open>
  \<open>app.settings.config\<close> is not part of the sources; the three settings the report
  routes read are parameters.
\<close>

record Settings =
  max_photos_per_issue :: int
  allowed_image_types :: "pystr list"
  max_file_size :: int

text \<open>
  \<open>app.services.storage\<close> is not part of the sources; the storage service is a parameter.
  An upload either raises (\<open>Inl\<close>, the text of the exception) or returns the object name
  (\<open>Inr\<close>); its answer may depend on the calls made before, which the state records
  in a journal. The journal is how the model says that an upload happened.
\<close>

record upload_call =
  call_file_data :: bytes
  call_filename :: pystr
  call_content_type :: pystr

record StorageService =
  upload_file :: "upload_call list \<Rightarrow> upload_call \<Rightarrow> pystr + pystr"
  get_file_url :: "pystr \<Rightarrow> pystr"

text \<open>
  The persistent state: the four tables in retrieval order, and the journal of the uploads
  made to the blob store. A commit appends rows; the tables never fail.
\<close>

record world =
  localities :: "Locality list"
  users :: "User list"
  issues :: "Issue list"
  issue_photos :: "IssuePhoto list"
  uploads :: "upload_call list"

text \<open>
  An \<open>HTTPException\<close> with its status code; the detail keeps the values the source
  formats into the message. Code 422 is the framework's rejection of a form or query
  field that violates the constraints declared in the route's signature.
\<close>

datatype detail =
    FieldConstraint
  | MaximumPhotosAllowed int
  | InvalidFileType "pystr option" "pystr list"
  | FileExceedsMaximumSize "pystr option" int
  | FailedToUploadPhoto pystr
  | IssueNotFound int
  | LocalityNotFound
  | UnhandledValueError

datatype http_error = HTTPException int detail

section \<open>Python helpers\<close>

text \<open>\<open>x or d\<close> on an optional string: \<open>None\<close> and the empty string are false.\<close>

definition str_or :: "pystr option \<Rightarrow> pystr \<Rightarrow> pystr" where
  "str_or x d = (case x of None \<Rightarrow> d | Some s \<Rightarrow> if s = [] then d else s)"

text \<open>\<open>str(n)\<close> of an integer: its decimal digits, with a minus sign when negative.\<close>

fun digits_of :: "nat \<Rightarrow> pystr" where
  "digits_of n = (if n < 10 then [48 + n] else digits_of (n div 10) @ [48 + n mod 10])"

declare digits_of.simps [simp del]

definition str_int :: "int \<Rightarrow> pystr" where
  "str_int i = (if i < 0 then 45 # digits_of (nat (- i)) else digits_of (nat i))"

text \<open>The next value of an auto-increment key: one more than the largest key in use.\<close>

definition next_pk :: "int list \<Rightarrow> int" where
  "next_pk ks = fold max ks 0 + 1"

text \<open>\<open>session.exec(select(...)).first()\<close>: the first row of the result, or \<open>None\<close>.\<close>

definition first_row :: "'a list \<Rightarrow> 'a option" where
  "first_row rows = (case rows of [] \<Rightarrow> None | r # _ \<Rightarrow> Some r)"

text \<open>\<open>session.get(Locality, id)\<close>: the row with that primary key, or \<open>None\<close>.\<close>

definition get_locality :: "world \<Rightarrow> int \<Rightarrow> Locality option" where
  "get_locality w k = find (\<lambda>l. locality_pk l = k) (localities w)"

definition get_issue_row :: "world \<Rightarrow> int \<Rightarrow> Issue option" where
  "get_issue_row w k = find (\<lambda>i. issue_pk i = k) (issues w)"

text \<open>The relationship \<open>Issue.photos\<close>: the photo rows that reference the issue.\<close>

definition photos_of :: "world \<Rightarrow> int \<Rightarrow> IssuePhoto list" where
  "photos_of w k = filter (\<lambda>p. photo_issue_id p = k) (issue_photos w)"

section \<open>Creating an issue (app/routes/reports.py, create_issue)\<close>

text \<open>The constraints of the form fields in the signature of \<open>create_issue\<close>.\<close>

definition form_ok :: "pystr \<Rightarrow> real \<Rightarrow> real \<Rightarrow> bool" where
  "form_ok descr lat lon \<longleftrightarrow>
     10 \<le> length descr \<and> length descr \<le> 2000 \<and>
     - 90 \<le> lat \<and> lat \<le> 90 \<and> - 180 \<le> lon \<and> lon \<le> 180"

text \<open>
  The loop that validates the type and the size of each photo, in order: the first
  violation raises.
\<close>

fun validate_photos :: "Settings \<Rightarrow> UploadFile list \<Rightarrow> http_error option" where
  "validate_photos s [] = None"
| "validate_photos s (photo # rest) =
     (if (case upload_content_type photo of None \<Rightarrow> True
          | Some t \<Rightarrow> t \<notin> set (allowed_image_types s))
      then Some (HTTPException 400
             (InvalidFileType (upload_content_type photo) (allowed_image_types s)))
      else if int (length (upload_content photo)) > max_file_size s
      then Some (HTTPException 400
             (FileExceedsMaximumSize (upload_filename photo) (max_file_size s)))
      else validate_photos s rest)"

text \<open>
  The representative lookup: the first user with role representative, the given
  locality and the active flag set.
\<close>

definition find_parshad :: "world \<Rightarrow> int \<Rightarrow> User option" where
  "find_parshad w lid =
     first_row (filter (\<lambda>u. role u = REPRESENTATIVE \<and> user_locality_id u = Some lid \<and>
                            is_active u = True) (users w))"

text \<open>
  The assignment decision: the representative's id, the message and the initial status.
\<close>

definition assign_issue :: "world \<Rightarrow> int option \<Rightarrow> int option \<times> pystr option \<times> IssueStatus" where
  "assign_issue w lid_opt =
     (case lid_opt of
        None \<Rightarrow> (None, None, REPORTED)
      | Some lid \<Rightarrow>
          (case find_parshad w lid of
             Some parshad \<Rightarrow>
               (Some (user_pk parshad),
                Some (ustr ''Auto-assigned to Parshad '' @ user_name parshad @
                      ustr '' of ward '' @ str_int lid),
                ASSIGNED)
           | None \<Rightarrow>
               (None,
                Some (ustr ''No Parshad assigned to ward '' @ str_int lid @
                      ustr ''. Issue is unassigned.''),
                REPORTED)))"

text \<open>
  The loop that uploads each photo and adds its row to the session. The rows stay
  pending until the commit after the loop; the first upload that raises ends the loop
  with the exception's text. The uploads made before stay in the journal. The model gives a
  pending row the key it will get at the commit.
\<close>

fun upload_photos ::
  "StorageService \<Rightarrow> int \<Rightarrow> datetime \<Rightarrow> UploadFile list \<Rightarrow> upload_call list \<Rightarrow> int \<Rightarrow>
   IssuePhoto list \<Rightarrow> upload_call list \<times> (pystr + IssuePhoto list)" where
  "upload_photos st iid now [] calls k pending = (calls, Inr pending)"
| "upload_photos st iid now (photo # rest) calls k pending =
     (let call = \<lparr>call_file_data = upload_content photo,
                  call_filename = str_or (upload_filename photo) (ustr ''image.jpg''),
                  call_content_type = str_or (upload_content_type photo) (ustr ''image/jpeg'')\<rparr>
      in case upload_file st calls call of
           Inl e \<Rightarrow> (calls, Inl e)
         | Inr object_name \<Rightarrow>
             upload_photos st iid now rest (calls @ [call]) (k + 1)
               (pending @
                [\<lparr>photo_pk = k,
                  photo_issue_id = iid,
                  photo_url = object_name,
                  filename = str_or (upload_filename photo) (ustr ''image.jpg''),
                  file_size = int (length (upload_content photo)),
                  content_type = str_or (upload_content_type photo) (ustr ''image/jpeg''),
                  photo_created_at = now\<rparr>]))"

definition photo_response :: "StorageService \<Rightarrow> IssuePhoto \<Rightarrow> IssuePhotoResponse" where
  "photo_response st p =
     \<lparr>pr_id = photo_pk p,
      pr_photo_url = get_file_url st (photo_url p),
      pr_filename = filename p,
      pr_file_size = file_size p,
      pr_content_type = content_type p,
      pr_created_at = photo_created_at p\<rparr>"

definition create_issue ::
  "Settings \<Rightarrow> StorageService \<Rightarrow> datetime \<Rightarrow> IssueType \<Rightarrow> pystr \<Rightarrow> real \<Rightarrow> real \<Rightarrow>
   int option \<Rightarrow> UploadFile list \<Rightarrow> User \<Rightarrow> world \<Rightarrow> world \<times> (http_error + IssueResponse)" where
  "create_issue s st now ity descr lat lon lid_opt photos current_user w =
     (if \<not> form_ok descr lat lon then (w, Inl (HTTPException 422 FieldConstraint))
      else if int (length photos) > max_photos_per_issue s
      then (w, Inl (HTTPException 400 (MaximumPhotosAllowed (max_photos_per_issue s))))
      else case validate_photos s photos of
        Some e \<Rightarrow> (w, Inl e)
      | None \<Rightarrow>
          (case assign_issue w lid_opt of
             (parshad_id, assignment_message, initial_status) \<Rightarrow>
               let new_issue =
                     \<lparr>issue_pk = next_pk (map issue_pk (issues w)),
                      issue_type = ity,
                      description = descr,
                      latitude = lat,
                      longitude = lon,
                      locality_id = lid_opt,
                      status = initial_status,
                      user_id = Some (user_pk current_user),
                      assigned_parshad_id = parshad_id,
                      assignment_notes = assignment_message,
                      progress_notes = None,
                      completion_description = None,
                      completion_photo_url = None,
                      completed_at = None,
                      completed_by_id = None,
                      created_at = now,
                      updated_at = now\<rparr>;
                   w1 = w\<lparr>issues := issues w @ [new_issue]\<rparr>
               in case upload_photos st (issue_pk new_issue) now photos (uploads w1)
                         (next_pk (map photo_pk (issue_photos w1))) [] of
                    (calls, Inl e) \<Rightarrow>
                      (w1\<lparr>uploads := calls\<rparr>, Inl (HTTPException 500 (FailedToUploadPhoto e)))
                  | (calls, Inr pending) \<Rightarrow>
                      let w2 = w1\<lparr>issue_photos := issue_photos w1 @ pending, uploads := calls\<rparr>
                      in (w2,
                          Inr \<lparr>r_id = issue_pk new_issue,
                               r_issue_type = issue_type new_issue,
                               r_description = description new_issue,
                               r_latitude = latitude new_issue,
                               r_longitude = longitude new_issue,
                               r_locality_id = locality_id new_issue,
                               r_locality_name = None,
                               r_locality_type = None,
                               r_status = status new_issue,
                               r_user_id = user_id new_issue,
                               r_assigned_parshad_id = assigned_parshad_id new_issue,
                               r_assignment_message = assignment_message,
                               r_completion_description = None,
                               r_completion_photo_url = None,
                               r_completed_at = None,
                               r_completed_by_id = None,
                               r_created_at = created_at new_issue,
                               r_updated_at = updated_at new_issue,
                               r_photos = map (photo_response st)
                                            (photos_of w2 (issue_pk new_issue))\<rparr>)))"

section \<open>Reading issues (app/routes/reports.py, build_issue_response and get_issue)\<close>

definition LocalityType_value :: "LocalityType \<Rightarrow> pystr" where
  "LocalityType_value t = (case t of WARD \<Rightarrow> ustr ''ward'' | VILLAGE \<Rightarrow> ustr ''village'')"

text \<open>
  The truth value of \<open>issue.locality_id\<close> is false for \<open>None\<close> and for 0, that of
  \<open>issue.completion_photo_url\<close> for \<open>None\<close> and for the empty string.
\<close>

definition build_issue_response :: "StorageService \<Rightarrow> world \<Rightarrow> Issue \<Rightarrow> IssueResponse" where
  "build_issue_response st w issue =
     (let photos = map (photo_response st) (photos_of w (issue_pk issue));
          completion_url =
            (case completion_photo_url issue of
               None \<Rightarrow> None
             | Some u \<Rightarrow> if u = [] then None else Some (get_file_url st u));
          locality =
            (case locality_id issue of
               None \<Rightarrow> None
             | Some lid \<Rightarrow> if lid = 0 then None else get_locality w lid)
      in \<lparr>r_id = issue_pk issue,
          r_issue_type = issue_type issue,
          r_description = description issue,
          r_latitude = latitude issue,
          r_longitude = longitude issue,
          r_locality_id = locality_id issue,
          r_locality_name = map_option locality_name locality,
          r_locality_type = map_option (\<lambda>l. LocalityType_value (locality_type l)) locality,
          r_status = status issue,
          r_user_id = user_id issue,
          r_assigned_parshad_id = assigned_parshad_id issue,
          r_assignment_message = None,
          r_completion_description = completion_description issue,
          r_completion_photo_url = completion_url,
          r_completed_at = completed_at issue,
          r_completed_by_id = completed_by_id issue,
          r_created_at = created_at issue,
          r_updated_at = updated_at issue,
          r_photos = photos\<rparr>)"

definition get_issue :: "StorageService \<Rightarrow> world \<Rightarrow> int \<Rightarrow> http_error + IssueResponse" where
  "get_issue st w issue_id =
     (case get_issue_row w issue_id of
        None \<Rightarrow> Inl (HTTPException 404 (IssueNotFound issue_id))
      | Some issue \<Rightarrow> Inr (build_issue_response st w issue))"

section \<open>Public locality details (app/routes/reports.py, get_locality_details)\<close>

record RepresentativeInfo =
  rep_id :: int
  rep_name :: pystr

record LocalityPublicResponse =
  lp_id :: int
  lp_name :: pystr
  lp_type :: LocalityType
  lp_representatives :: "RepresentativeInfo list"

definition get_locality_details :: "world \<Rightarrow> int \<Rightarrow> http_error + LocalityPublicResponse" where
  "get_locality_details w lid =
     (case get_locality w lid of
        None \<Rightarrow> Inl (HTTPException 404 LocalityNotFound)
      | Some locality \<Rightarrow>
          if \<not> locality_is_active locality then Inl (HTTPException 404 LocalityNotFound)
          else
            let reps = filter (\<lambda>u. user_locality_id u = Some (locality_pk locality) \<and>
                                    role u = REPRESENTATIVE \<and> is_active u = True) (users w)
            in Inr \<lparr>lp_id = locality_pk locality,
                    lp_name = locality_name locality,
                    lp_type = locality_type locality,
                    lp_representatives =
                      map (\<lambda>r. \<lparr>rep_id = user_pk r, rep_name = user_name r\<rparr>) reps\<rparr>)"

section \<open>Phone numbers (app/services/twilio.py, normalize_phone_number)\<close>

text \<open>
  \<open>re.sub(r'\D', '', phone)\<close> keeps the characters of the class \<open>\d\<close>. For a \<open>str\<close> pattern
  that class is Unicode's decimal digits, a table of Python's and not of the sources; it
  is the parameter \<open>is_digit\<close>.
\<close>

definition startswith :: "pystr \<Rightarrow> pystr \<Rightarrow> bool" where
  "startswith s p \<longleftrightarrow> take (length p) s = p"

definition normalize_phone_number :: "(codepoint \<Rightarrow> bool) \<Rightarrow> pystr \<Rightarrow> pystr" where
  "normalize_phone_number is_digit phone =
     (if startswith phone (ustr ''+'')
      then ustr ''+'' @ filter is_digit (drop 1 phone)
      else
        let digits = filter is_digit phone;
            national =
              (if \<not> startswith digits (ustr ''91'') \<or> length digits = 10
               then ustr ''91'' @ digits else digits)
        in ustr ''+'' @ national)"

text \<open>The ASCII digits, the part of \<open>\d\<close> the examples of the docstring use.\<close>

definition ascii_digit :: "codepoint \<Rightarrow> bool" where
  "ascii_digit c \<longleftrightarrow> 48 \<le> c \<and> c \<le> 57"

section \<open>Issues near a point (app/routes/reports.py, get_issues_for_map)\<close>

text \<open>
  The coordinates and the distance are Python floats. They are idealised as real
  numbers: \<open>radians\<close>, \<open>sin\<close>, \<open>cos\<close>, \<open>asin\<close> and \<open>sqrt\<close> are the exact functions, and no
  rounding is modelled. \<open>math.sqrt\<close> and \<open>math.asin\<close> raise \<open>ValueError\<close> outside their
  domains, which is the value \<open>None\<close> here.
\<close>

definition radians :: "real \<Rightarrow> real" where
  "radians d = d * pi / 180"








text \<open>
  The distance as the specification words it: the standard haversine formula on a sphere
  of radius 6371 km, degrees in and kilometres out.
\<close>

definition hav :: "real \<Rightarrow> real" where
  "hav \<theta> = (sin (\<theta> / 2))\<^sup>2"

definition great_circle_km :: "real \<Rightarrow> real \<Rightarrow> real \<Rightarrow> real \<Rightarrow> real" where
  "great_circle_km lat1 lon1 lat2 lon2 =
     2 * 6371 *
     arcsin (sqrt (hav (radians lat2 - radians lat1) +
                   cos (radians lat1) * cos (radians lat2) * hav (radians lon2 - radians lon1)))"

section \<open>Status transitions\<close>

text \<open>
  The routes that change the status of an issue are not part of the sources; only the
  enumeration \<open>IssueStatus\<close>, the columns of \<open>Issue\<close> and the schema \<open>IssueStatusUpdate\<close>
  are. The definitions of this section follow the specification (sections 4.2, 6 and 7).
\<close>

text \<open>
  Modelled from the spec: the strict forward order of the six states (section 4.2); the
  transition routes that would enforce it are missing from the sources.
\<close>

fun next_status :: "IssueStatus \<Rightarrow> IssueStatus option" where
  "next_status REPORTED = Some ASSIGNED"
| "next_status ASSIGNED = Some REPRESENTATIVE_ACKNOWLEDGED"
| "next_status REPRESENTATIVE_ACKNOWLEDGED = Some PWD_WORKING"
| "next_status PWD_WORKING = Some PWD_COMPLETED"
| "next_status PWD_COMPLETED = Some REPRESENTATIVE_REVIEWED"
| "next_status REPRESENTATIVE_REVIEWED = None"

text \<open>
  Modelled from the spec: the state a transition to the target expects the issue to be
  in, which \<open>InvalidTransition\<close> reports next to the actual one (section 7).
\<close>

fun expected_status :: "IssueStatus \<Rightarrow> IssueStatus option" where
  "expected_status REPORTED = None"
| "expected_status ASSIGNED = Some REPORTED"
| "expected_status REPRESENTATIVE_ACKNOWLEDGED = Some ASSIGNED"
| "expected_status PWD_WORKING = Some REPRESENTATIVE_ACKNOWLEDGED"
| "expected_status PWD_COMPLETED = Some PWD_WORKING"
| "expected_status REPRESENTATIVE_REVIEWED = Some PWD_COMPLETED"

text \<open>
  Modelled from the spec: the error kinds of section 7 that a transition can end in.
\<close>

datatype core_error =
    NotFound
  | InvalidTransition "IssueStatus option" IssueStatus
  | ValidationError

text \<open>
  Modelled from the spec: the payload of a transition to \<open>PWD_COMPLETED\<close>, a completion
  description and, optionally, a completion photo (sections 4.2 and 6).
\<close>

record CompletionPayload =
  payload_description :: pystr
  payload_photo :: "pystr option"

text \<open>
  Modelled from the spec: the caller required by each line of the transition table
  (section 4.2). \<open>REPORTED\<close> to \<open>ASSIGNED\<close> is the system's step at creation and no caller's;
  acknowledging and reviewing need the representative the issue is assigned to; the two
  steps of the works need a crew worker.
\<close>

fun may_perform :: "User \<Rightarrow> Issue \<Rightarrow> IssueStatus \<Rightarrow> bool" where
  "may_perform u issue REPORTED = False"
| "may_perform u issue ASSIGNED = False"
| "may_perform u issue REPRESENTATIVE_ACKNOWLEDGED =
     (role u = REPRESENTATIVE \<and> assigned_parshad_id issue = Some (user_pk u))"
| "may_perform u issue PWD_WORKING = (role u = PWD_WORKER)"
| "may_perform u issue PWD_COMPLETED = (role u = PWD_WORKER)"
| "may_perform u issue REPRESENTATIVE_REVIEWED =
     (role u = REPRESENTATIVE \<and> assigned_parshad_id issue = Some (user_pk u))"

text \<open>
  Modelled from the spec: one transition of one issue (section 4.2). A target that is
  not the successor of the current status, or a caller the table does not allow, is an
  \<open>InvalidTransition\<close>; a transition to \<open>PWD_COMPLETED\<close> requires the payload, stores its
  description and its optional photo, and sets \<open>completed_at\<close> to the current time and
  \<open>completed_by_id\<close> to the acting worker; every mutation bumps \<open>updated_at\<close>.
\<close>

definition transition_issue ::
  "datetime \<Rightarrow> Issue \<Rightarrow> User \<Rightarrow> IssueStatus \<Rightarrow> CompletionPayload option \<Rightarrow> core_error + Issue" where
  "transition_issue now issue u target payload =
     (if next_status (status issue) \<noteq> Some target
      then Inl (InvalidTransition (expected_status target) (status issue))
      else if \<not> may_perform u issue target
      then Inl (InvalidTransition (expected_status target) (status issue))
      else if target = PWD_COMPLETED
      then (case payload of
              None \<Rightarrow> Inl ValidationError
            | Some p \<Rightarrow>
                Inr (issue\<lparr>status := target,
                           completion_description := Some (payload_description p),
                           completion_photo_url := payload_photo p,
                           completed_at := Some now,
                           completed_by_id := Some (user_pk u),
                           updated_at := now\<rparr>))
      else Inr (issue\<lparr>status := target, updated_at := now\<rparr>))"

text \<open>
  Modelled from the spec: \<open>TransitionIssue(issue_id, acting_user, target_status, payload?)\<close>
  of section 6 on the stored state. An unknown issue is \<open>NotFound\<close>; a failed transition
  writes nothing; a successful one replaces the row.
\<close>

definition TransitionIssue ::
  "datetime \<Rightarrow> world \<Rightarrow> int \<Rightarrow> User \<Rightarrow> IssueStatus \<Rightarrow> CompletionPayload option \<Rightarrow>
   world \<times> (core_error + Issue)" where
  "TransitionIssue now w issue_id u target payload =
     (case get_issue_row w issue_id of
        None \<Rightarrow> (w, Inl NotFound)
      | Some issue \<Rightarrow>
          (case transition_issue now issue u target payload of
             Inl e \<Rightarrow> (w, Inl e)
           | Inr issue' \<Rightarrow>
               (w\<lparr>issues := map (\<lambda>i. if issue_pk i = issue_id then issue' else i) (issues w)\<rparr>,
                Inr issue')))"

text \<open>
  The states the system can reach: from a database with no issues, by changes of
  the directory (localities and users), by \<open>create_issue\<close> and by \<open>TransitionIssue\<close>.
\<close>

inductive reachable :: "world \<Rightarrow> bool" where
  start: "reachable \<lparr>localities = ls, users = us, issues = [], issue_photos = [], uploads = []\<rparr>"
| directory: "reachable w \<Longrightarrow> reachable (w\<lparr>localities := ls, users := us\<rparr>)"
| created:
    "reachable w \<Longrightarrow>
     reachable (fst (create_issue s st now ity descr lat lon lid_opt photos cu w))"
| transitioned:
    "reachable w \<Longrightarrow> reachable (fst (TransitionIssue now w issue_id u target payload))"

text \<open>The two stages at which the works are completed.\<close>

definition completed_stage :: "IssueStatus \<Rightarrow> bool" where
  "completed_stage s \<longleftrightarrow> s = PWD_COMPLETED \<or> s = REPRESENTATIVE_REVIEWED"

text \<open>
  The completion fields against the stage: before completion all four are null; from
  completion on, the description, the time and the worker are set.
\<close>

definition completion_inv :: "Issue \<Rightarrow> bool" where
  "completion_inv i \<longleftrightarrow>
     (if completed_stage (status i)
      then completion_description i \<noteq> None \<and> completed_at i \<noteq> None \<and>
           completed_by_id i \<noteq> None
      else completion_description i = None \<and> completion_photo_url i = None \<and>
           completed_at i = None \<and> completed_by_id i = None)"

section \<open>Example data\<close>

text \<open>
  The scenario of the specification: locality 5 with the active representative Asha
  (id 42) and a citizen. The locality itself is inactive here.
\<close>

definition ex_settings :: Settings where
  "ex_settings = \<lparr>max_photos_per_issue = 3,
                   allowed_image_types = [ustr ''image/jpeg'', ustr ''image/png''],
                   max_file_size = 5242880\<rparr>"

definition ex_storage :: StorageService where
  "ex_storage = \<lparr>upload_file = (\<lambda>calls c. Inr (ustr ''issues/'' @ call_filename c)),
                  get_file_url = (\<lambda>k. ustr ''https://files/'' @ k)\<rparr>"

definition ex_failing_storage :: StorageService where
  "ex_failing_storage = \<lparr>upload_file = (\<lambda>calls c. Inl (ustr ''connection refused'')),
                          get_file_url = (\<lambda>k. ustr ''https://files/'' @ k)\<rparr>"

definition ex_asha :: User where
  "ex_asha = \<lparr>user_pk = 42, user_name = ustr ''Asha'', mobile_number = ustr ''+919876543210'',
               role = REPRESENTATIVE, is_active = True, is_verified = True,
               user_locality_id = Some 5\<rparr>"

definition ex_citizen :: User where
  "ex_citizen = \<lparr>user_pk = 7, user_name = ustr ''Ravi'', mobile_number = ustr ''+919812345678'',
                  role = USER, is_active = True, is_verified = True,
                  user_locality_id = None\<rparr>"

definition ex_world :: world where
  "ex_world = \<lparr>localities = [\<lparr>locality_pk = 5, locality_name = ustr ''Ward 5'',
                               locality_type = WARD, locality_is_active = False\<rparr>],
                users = [ex_asha, ex_citizen],
                issues = [],
                issue_photos = [],
                uploads = []\<rparr>"

definition ex_description :: pystr where
  "ex_description = ustr ''Water pipe leaking''"

definition ex_photo :: UploadFile where
  "ex_photo = \<lparr>upload_filename = Some (ustr ''leak.png''),
                upload_content_type = Some (ustr ''image/png''),
                upload_content = ''PNG''\<rparr>"


definition ex_worker :: User where
  "ex_worker = \<lparr>user_pk = 9, user_name = ustr ''Kiran'', mobile_number = ustr ''+919800000009'',
                 role = PWD_WORKER, is_active = True, is_verified = True,
                 user_locality_id = None\<rparr>"

text \<open>
  The life of one issue: created in locality 5 (assigned to Asha), acknowledged by Asha,
  taken up by the crew worker, and completed by the crew worker with a description and
  no photo.
\<close>

definition ex_created :: world where
  "ex_created = fst (create_issue ex_settings ex_storage 100 WATER ex_description 0 0 (Some 5)
                       [] ex_citizen ex_world)"

definition ex_acknowledged :: world where
  "ex_acknowledged = fst (TransitionIssue 200 ex_created 1 ex_asha REPRESENTATIVE_ACKNOWLEDGED None)"

definition ex_working :: world where
  "ex_working = fst (TransitionIssue 300 ex_acknowledged 1 ex_worker PWD_WORKING None)"

definition ex_completed :: world where
  "ex_completed =
     fst (TransitionIssue 400 ex_working 1 ex_worker PWD_COMPLETED
            (Some \<lparr>payload_description = ustr ''Pipe replaced'', payload_photo = None\<rparr>))"

definition ex_issue :: Issue where
  "ex_issue =
     \<lparr>issue_pk = 1, issue_type = WATER, description = ex_description,
      latitude = 0, longitude = 0, locality_id = Some 5, status = ASSIGNED,
      user_id = Some 7, assigned_parshad_id = Some 42,
      assignment_notes = Some (ustr ''Auto-assigned to Parshad Asha of ward 5''),
      progress_notes = None, completion_description = None,
      completion_photo_url = None, completed_at = None, completed_by_id = None,
      created_at = 100, updated_at = 100\<rparr>"

definition ex_done :: Issue where
  "ex_done =
     ex_issue\<lparr>status := PWD_COMPLETED,
               completion_description := Some (ustr ''Pipe replaced''),
               completion_photo_url := None,
               completed_at := Some 400,
               completed_by_id := Some 9,
               updated_at := 400\<rparr>"




text \<open>
  The stored state and the response of the call that creates the example issue with one
  photo.
\<close>

definition ex_photo_row :: IssuePhoto where
  "ex_photo_row = \<lparr>photo_pk = 1, photo_issue_id = 1, photo_url = ustr ''issues/leak.png'',
                    filename = ustr ''leak.png'', file_size = 3,
                    content_type = ustr ''image/png'', photo_created_at = 100\<rparr>"

definition ex_stored :: world where
  "ex_stored = ex_world\<lparr>issues := [ex_issue], issue_photos := [ex_photo_row],
                         uploads := [\<lparr>call_file_data = ''PNG'', call_filename = ustr ''leak.png'',
                                      call_content_type = ustr ''image/png''\<rparr>]\<rparr>"

definition ex_response :: IssueResponse where
  "ex_response =
     \<lparr>r_id = 1, r_issue_type = WATER, r_description = ex_description,
      r_latitude = 0, r_longitude = 0, r_locality_id = Some 5,
      r_locality_name = None, r_locality_type = None, r_status = ASSIGNED,
      r_user_id = Some 7, r_assigned_parshad_id = Some 42,
      r_assignment_message = Some (ustr ''Auto-assigned to Parshad Asha of ward 5''),
      r_completion_description = None, r_completion_photo_url = None,
      r_completed_at = None, r_completed_by_id = None,
      r_created_at = 100, r_updated_at = 100,
      r_photos = [\<lparr>pr_id = 1, pr_photo_url = ustr ''https://files/issues/leak.png'',
                    pr_filename = ustr ''leak.png'', pr_file_size = 3,
                    pr_content_type = ustr ''image/png'', pr_created_at = 100\<rparr>]\<rparr>"

text \<open>A storage service that accepts the first upload and refuses every later one.\<close>

definition ex_flaky_storage :: StorageService where
  "ex_flaky_storage =
     \<lparr>upload_file = (\<lambda>calls c. if calls = [] then Inr (ustr ''issues/'' @ call_filename c)
                                else Inl (ustr ''connection refused'')),
      get_file_url = (\<lambda>k. ustr ''https://files/'' @ k)\<rparr>"

section \<open>Properties of create_issue\<close>

subsection \<open>Auxiliary facts\<close>

lemma validate_photos_None_iff:
  "validate_photos s photos = None \<longleftrightarrow>
     (\<forall>p\<in>set photos.
        (case upload_content_type p of None \<Rightarrow> False | Some t \<Rightarrow> t \<in> set (allowed_image_types s)) \<and>
        int (length (upload_content p)) \<le> max_file_size s)"
  by (induction photos) (auto split: option.splits)

lemma validate_photos_code:
  "validate_photos s photos = Some e \<Longrightarrow> \<exists>d. e = HTTPException 400 d"
  by (induction photos) (auto split: option.splits if_splits)

lemma find_parshad_None_iff:
  "find_parshad w lid = None \<longleftrightarrow>
     \<not> (\<exists>u\<in>set (users w). role u = REPRESENTATIVE \<and> user_locality_id u = Some lid \<and> is_active u)"
proof -
  let ?P = "\<lambda>u. role u = REPRESENTATIVE \<and> user_locality_id u = Some lid \<and> is_active u = True"
  have "find_parshad w lid = None \<longleftrightarrow> filter ?P (users w) = []"
    by (simp add: find_parshad_def first_row_def split: list.splits)
  then show ?thesis
    by (simp add: filter_empty_conv)
qed

lemma create_issue_valid_issues:
  assumes "form_ok descr lat lon"
      and "int (length photos) \<le> max_photos_per_issue s"
      and "validate_photos s photos = None"
  shows "issues (fst (create_issue s st now ity descr lat lon lid_opt photos cu w)) =
         issues w @
         [\<lparr>issue_pk = next_pk (map issue_pk (issues w)),
           issue_type = ity, description = descr, latitude = lat, longitude = lon,
           locality_id = lid_opt,
           status = snd (snd (assign_issue w lid_opt)),
           user_id = Some (user_pk cu),
           assigned_parshad_id = fst (assign_issue w lid_opt),
           assignment_notes = fst (snd (assign_issue w lid_opt)),
           progress_notes = None, completion_description = None,
           completion_photo_url = None, completed_at = None, completed_by_id = None,
           created_at = now, updated_at = now\<rparr>]"
  using assms
  by (simp add: create_issue_def Let_def split: prod.splits sum.splits)

subsection \<open>Initial status and assignment\<close>

text \<open>
  Claim C1. A call of \<open>create_issue\<close> that passes the checks before the insert persists
  exactly one new issue row. When the call names a locality for which some user has role
  representative, that locality and the active flag, the row has status \<open>ASSIGNED\<close> and a
  non-null \<open>assigned_parshad_id\<close>; when the call names no locality, or no such user
  exists, the row has status \<open>REPORTED\<close> and a null \<open>assigned_parshad_id\<close>. The row is
  persisted whether or not the photo uploads that follow succeed.
\<close>

theorem create_issue_initial_status:
  assumes "form_ok descr lat lon"
      and "int (length photos) \<le> max_photos_per_issue s"
      and "validate_photos s photos = None"
  shows "\<exists>new_issue.
           issues (fst (create_issue s st now ity descr lat lon lid_opt photos cu w)) =
             issues w @ [new_issue] \<and>
           (if \<exists>lid. lid_opt = Some lid \<and>
                 (\<exists>u\<in>set (users w). role u = REPRESENTATIVE \<and>
                                      user_locality_id u = Some lid \<and> is_active u)
            then status new_issue = ASSIGNED \<and> assigned_parshad_id new_issue \<noteq> None
            else status new_issue = REPORTED \<and> assigned_parshad_id new_issue = None)"
proof (cases lid_opt)
  case None
  then show ?thesis
    using create_issue_valid_issues [OF assms] by (simp add: assign_issue_def)
next
  case (Some lid)
  show ?thesis
  proof (cases "find_parshad w lid")
    case None
    with Some show ?thesis
      using create_issue_valid_issues [OF assms] find_parshad_None_iff [of w lid]
      by (simp add: assign_issue_def)
  next
    case (Some parshad)
    with \<open>lid_opt = Some lid\<close> show ?thesis
      using create_issue_valid_issues [OF assms] find_parshad_None_iff [of w lid]
      by (simp add: assign_issue_def)
  qed
qed

lemma ex_form_ok: "form_ok ex_description 0 0"
  by (simp add: form_ok_def ex_description_def ustr_def)

text \<open>
  The scenario of the specification: locality 5, representative Asha active, one valid
  photo.
\<close>

theorem create_issue_initial_status_witness:
  "form_ok ex_description 0 0 \<and>
   int (length [ex_photo]) \<le> max_photos_per_issue ex_settings \<and>
   validate_photos ex_settings [ex_photo] = None \<and>
   (\<exists>new_issue.
      issues (fst (create_issue ex_settings ex_storage 100 WATER ex_description 0 0 (Some 5)
                     [ex_photo] ex_citizen ex_world)) = issues ex_world @ [new_issue] \<and>
      status new_issue = ASSIGNED \<and> assigned_parshad_id new_issue \<noteq> None)"
proof -
  have h1: "form_ok ex_description 0 0" by (rule ex_form_ok)
  have h2: "int (length [ex_photo]) \<le> max_photos_per_issue ex_settings"
    by (simp add: ex_settings_def)
  have h3: "validate_photos ex_settings [ex_photo] = None"
    by (simp add: ex_settings_def ex_photo_def ustr_def)
  have rep: "\<exists>lid. Some 5 = Some lid \<and>
               (\<exists>u\<in>set (users ex_world). role u = REPRESENTATIVE \<and>
                    user_locality_id u = Some lid \<and> is_active u)"
    by (simp add: ex_world_def ex_asha_def)
  from create_issue_initial_status [OF h1 h2 h3, of ex_storage 100 WATER "Some 5" ex_citizen ex_world] rep
  show ?thesis using h1 h2 h3 by auto
qed

subsection \<open>The checks before any upload or insert\<close>

text \<open>
  Claim C4. When the batch of photos has more items than \<open>max_photos_per_issue\<close>, or an
  item whose content type is absent or outside \<open>allowed_image_types\<close>, or an item longer
  than \<open>max_file_size\<close>, \<open>create_issue\<close> fails with status code 400 (or 422, when a form
  field is also out of range) and returns the state it was given: no issue row, no photo
  row, no upload.
\<close>

theorem create_issue_prechecks_fail_fast:
  assumes "int (length photos) > max_photos_per_issue s \<or>
           (\<exists>p\<in>set photos. case upload_content_type p of
                                None \<Rightarrow> True
                              | Some t \<Rightarrow> t \<notin> set (allowed_image_types s)) \<or>
           (\<exists>p\<in>set photos. int (length (upload_content p)) > max_file_size s)"
  shows "\<exists>code d. create_issue s st now ity descr lat lon lid_opt photos cu w =
                     (w, Inl (HTTPException code d)) \<and> (code = 400 \<or> code = 422)"
proof -
  have "int (length photos) > max_photos_per_issue s \<or> validate_photos s photos \<noteq> None"
  proof (rule ccontr)
    assume neg: "\<not> ?thesis"
    then have ok: "\<forall>p\<in>set photos.
        (case upload_content_type p of None \<Rightarrow> False
         | Some t \<Rightarrow> t \<in> set (allowed_image_types s)) \<and>
        int (length (upload_content p)) \<le> max_file_size s"
      using validate_photos_None_iff [of s photos] by simp
    from neg assms consider
        p where "p \<in> set photos"
          "case upload_content_type p of None \<Rightarrow> True
           | Some t \<Rightarrow> t \<notin> set (allowed_image_types s)"
      | p where "p \<in> set photos" "int (length (upload_content p)) > max_file_size s"
      by auto
    then show False
    proof cases
      case 1
      with ok show False by (cases "upload_content_type p") force+
    next
      case 2
      with ok show False by force
    qed
  qed
  then show ?thesis
  proof
    assume "int (length photos) > max_photos_per_issue s"
    then show ?thesis by (simp add: create_issue_def)
  next
    assume "validate_photos s photos \<noteq> None"
    then obtain e where e: "validate_photos s photos = Some e" by auto
    then obtain d where "e = HTTPException 400 d" using validate_photos_code by blast
    with e show ?thesis by (simp add: create_issue_def)
  qed
qed

text \<open>Four photos where three are allowed.\<close>

theorem create_issue_prechecks_fail_fast_witness:
  "int (length [ex_photo, ex_photo, ex_photo, ex_photo]) > max_photos_per_issue ex_settings \<and>
   (\<exists>code d. create_issue ex_settings ex_storage 100 WATER ex_description 0 0 (Some 5)
                 [ex_photo, ex_photo, ex_photo, ex_photo] ex_citizen ex_world =
               (ex_world, Inl (HTTPException code d)) \<and> (code = 400 \<or> code = 422))"
proof -
  have h: "int (length [ex_photo, ex_photo, ex_photo, ex_photo]) > max_photos_per_issue ex_settings"
    by (simp add: ex_settings_def)
  show ?thesis
    using h create_issue_prechecks_fail_fast [OF disjI1 [OF h], of ex_storage 100 WATER
        ex_description 0 0 "Some 5" ex_citizen ex_world]
    by simp
qed

subsection \<open>The lookup reads the user table only\<close>

lemma find_parshad_localities:
  "find_parshad (w\<lparr>localities := ls\<rparr>) lid = find_parshad w lid"
  by (simp add: find_parshad_def)

lemma assign_issue_localities:
  "assign_issue (w\<lparr>localities := ls\<rparr>) lid_opt = assign_issue w lid_opt"
  by (simp add: assign_issue_def find_parshad_localities split: option.splits)

lemma find_parshad_Some:
  assumes "find_parshad w lid = Some p"
  shows "p \<in> set (users w) \<and> role p = REPRESENTATIVE \<and>
         user_locality_id p = Some lid \<and> is_active p"
proof -
  let ?P = "\<lambda>u. role u = REPRESENTATIVE \<and> user_locality_id u = Some lid \<and> is_active u = True"
  from assms obtain rest where "filter ?P (users w) = p # rest"
    by (auto simp: find_parshad_def first_row_def split: list.splits)
  then have "p \<in> set (filter ?P (users w))" by simp
  then show ?thesis by simp
qed

text \<open>
  Claim C7. The representative lookup of \<open>create_issue\<close> filters the user table on the
  role \<open>REPRESENTATIVE\<close>, the locality id and the active flag of the user, and on
  nothing else: it finds nobody exactly when no user passes the three tests, and whoever
  it finds passes them. It never reads the locality table: replacing that table by any
  other, one in which the referenced locality is inactive or missing included, changes
  neither the lookup nor the issue \<open>create_issue\<close> persists nor its response. So a call
  that passes the checks and names a locality with an active representative persists an
  \<open>ASSIGNED\<close> issue bound to the representative found, whatever the locality table
  holds.
\<close>

theorem create_issue_lookup_ignores_locality_state:
  "(find_parshad (w\<lparr>localities := ls\<rparr>) lid = None \<longleftrightarrow>
      \<not> (\<exists>u\<in>set (users w). role u = REPRESENTATIVE \<and> user_locality_id u = Some lid \<and>
                             is_active u)) \<and>
   (\<forall>p. find_parshad (w\<lparr>localities := ls\<rparr>) lid = Some p \<longrightarrow>
        p \<in> set (users w) \<and> role p = REPRESENTATIVE \<and> user_locality_id p = Some lid \<and>
        is_active p) \<and>
   create_issue s st now ity descr lat lon lid_opt photos cu (w\<lparr>localities := ls\<rparr>) =
     (case create_issue s st now ity descr lat lon lid_opt photos cu w of
        (w', res) \<Rightarrow> (w'\<lparr>localities := ls\<rparr>, res)) \<and>
   (form_ok descr lat lon \<and> int (length photos) \<le> max_photos_per_issue s \<and>
    validate_photos s photos = None \<and>
    (\<exists>u\<in>set (users w). role u = REPRESENTATIVE \<and> user_locality_id u = Some lid \<and>
                          is_active u) \<longrightarrow>
    (\<exists>p new_issue.
       find_parshad (w\<lparr>localities := ls\<rparr>) lid = Some p \<and>
       issues (fst (create_issue s st now ity descr lat lon (Some lid) photos cu
                      (w\<lparr>localities := ls\<rparr>))) = issues w @ [new_issue] \<and>
       status new_issue = ASSIGNED \<and>
       assigned_parshad_id new_issue = Some (user_pk p)))"
proof (intro conjI allI impI)
  show "find_parshad (w\<lparr>localities := ls\<rparr>) lid = None \<longleftrightarrow>
      \<not> (\<exists>u\<in>set (users w). role u = REPRESENTATIVE \<and> user_locality_id u = Some lid \<and>
                             is_active u)"
    using find_parshad_None_iff [of w lid] by (simp add: find_parshad_localities)
next
  fix p
  assume "find_parshad (w\<lparr>localities := ls\<rparr>) lid = Some p"
  then have "find_parshad w lid = Some p" by (simp add: find_parshad_localities)
  then show "p \<in> set (users w)" "role p = REPRESENTATIVE" "user_locality_id p = Some lid"
      "is_active p"
    using find_parshad_Some by blast+
next
  show "create_issue s st now ity descr lat lon lid_opt photos cu (w\<lparr>localities := ls\<rparr>) =
     (case create_issue s st now ity descr lat lon lid_opt photos cu w of
        (w', res) \<Rightarrow> (w'\<lparr>localities := ls\<rparr>, res))"
    by (simp add: create_issue_def assign_issue_localities find_parshad_localities photos_of_def
          Let_def split: prod.splits sum.splits option.splits)
next
  assume h: "form_ok descr lat lon \<and> int (length photos) \<le> max_photos_per_issue s \<and>
    validate_photos s photos = None \<and>
    (\<exists>u\<in>set (users w). role u = REPRESENTATIVE \<and> user_locality_id u = Some lid \<and>
                          is_active u)"
  let ?w = "w\<lparr>localities := ls\<rparr>"
  from h have "find_parshad w lid \<noteq> None"
    using find_parshad_None_iff [of w lid] by blast
  then obtain p where p: "find_parshad ?w lid = Some p"
    by (auto simp: find_parshad_localities)
  from h have v: "form_ok descr lat lon" "int (length photos) \<le> max_photos_per_issue s"
      "validate_photos s photos = None"
    by blast+
  have a: "assign_issue ?w (Some lid) =
      (Some (user_pk p),
       Some (ustr ''Auto-assigned to Parshad '' @ user_name p @ ustr '' of ward '' @ str_int lid),
       ASSIGNED)"
    using p by (simp add: assign_issue_def)
  from create_issue_valid_issues [OF v, of st now ity "Some lid" cu ?w]
  have "\<exists>new_issue.
       issues (fst (create_issue s st now ity descr lat lon (Some lid) photos cu ?w)) =
         issues w @ [new_issue] \<and>
       status new_issue = ASSIGNED \<and>
       assigned_parshad_id new_issue = Some (user_pk p)"
    by (simp add: a)
  with p show "\<exists>p new_issue.
       find_parshad ?w lid = Some p \<and>
       issues (fst (create_issue s st now ity descr lat lon (Some lid) photos cu ?w)) =
         issues w @ [new_issue] \<and>
       status new_issue = ASSIGNED \<and>
       assigned_parshad_id new_issue = Some (user_pk p)"
    by blast
qed

text \<open>
  In the example data locality 5 is inactive and Asha is its active representative: the
  issue created there is \<open>ASSIGNED\<close> to Asha, also once the locality row is gone.
\<close>

theorem create_issue_lookup_ignores_locality_state_witness:
  "get_locality ex_world 5 =
     Some \<lparr>locality_pk = 5, locality_name = ustr ''Ward 5'',
            locality_type = WARD, locality_is_active = False\<rparr> \<and>
   get_locality (ex_world\<lparr>localities := []\<rparr>) 5 = None \<and>
   form_ok ex_description 0 0 \<and>
   int (length [ex_photo]) \<le> max_photos_per_issue ex_settings \<and>
   validate_photos ex_settings [ex_photo] = None \<and>
   ex_asha \<in> set (users ex_world) \<and> role ex_asha = REPRESENTATIVE \<and>
   user_locality_id ex_asha = Some 5 \<and> is_active ex_asha \<and>
   find_parshad ex_world 5 = Some ex_asha \<and>
   find_parshad (ex_world\<lparr>localities := []\<rparr>) 5 = Some ex_asha \<and>
   (\<exists>p new_issue.
      find_parshad (ex_world\<lparr>localities := []\<rparr>) 5 = Some p \<and>
      issues (fst (create_issue ex_settings ex_storage 100 WATER ex_description 0 0 (Some 5)
                     [ex_photo] ex_citizen (ex_world\<lparr>localities := []\<rparr>))) =
        issues ex_world @ [new_issue] \<and>
      status new_issue = ASSIGNED \<and>
      assigned_parshad_id new_issue = Some (user_pk p)) \<and>
   issues (fst (create_issue ex_settings ex_storage 100 WATER ex_description 0 0 (Some 5)
                  [ex_photo] ex_citizen ex_world)) = [ex_issue] \<and>
   status ex_issue = ASSIGNED \<and> assigned_parshad_id ex_issue = Some 42"
proof -
  have l1: "get_locality ex_world 5 =
     Some \<lparr>locality_pk = 5, locality_name = ustr ''Ward 5'',
            locality_type = WARD, locality_is_active = False\<rparr>"
    by (simp add: get_locality_def ex_world_def)
  have l2: "get_locality (ex_world\<lparr>localities := []\<rparr>) 5 = None"
    by (simp add: get_locality_def)
  have h1: "form_ok ex_description 0 0" by (rule ex_form_ok)
  have h2: "int (length [ex_photo]) \<le> max_photos_per_issue ex_settings"
    by (simp add: ex_settings_def)
  have h3: "validate_photos ex_settings [ex_photo] = None"
    by (simp add: ex_settings_def ex_photo_def ustr_def)
  have u: "ex_asha \<in> set (users ex_world)" "role ex_asha = REPRESENTATIVE"
      "user_locality_id ex_asha = Some 5" "is_active ex_asha"
    by (simp_all add: ex_world_def ex_asha_def)
  have rep: "\<exists>u\<in>set (users ex_world). role u = REPRESENTATIVE \<and>
               user_locality_id u = Some 5 \<and> is_active u"
    using u by blast
  have f1: "find_parshad ex_world 5 = Some ex_asha"
    by (simp add: find_parshad_def first_row_def ex_world_def ex_asha_def ex_citizen_def)
  have f2: "find_parshad (ex_world\<lparr>localities := []\<rparr>) 5 = Some ex_asha"
    using f1 by (simp add: find_parshad_def)
  note t = create_issue_lookup_ignores_locality_state
             [where w = ex_world and ls = "[]" and lid = 5 and s = ex_settings
                and st = ex_storage and now = 100 and ity = WATER and descr = ex_description
                and lat = 0 and lon = 0 and lid_opt = "Some 5" and photos = "[ex_photo]"
                and cu = ex_citizen]
  from t h1 h2 h3 rep
  have ex: "\<exists>p new_issue.
      find_parshad (ex_world\<lparr>localities := []\<rparr>) 5 = Some p \<and>
      issues (fst (create_issue ex_settings ex_storage 100 WATER ex_description 0 0 (Some 5)
                     [ex_photo] ex_citizen (ex_world\<lparr>localities := []\<rparr>))) =
        issues ex_world @ [new_issue] \<and>
      status new_issue = ASSIGNED \<and>
      assigned_parshad_id new_issue = Some (user_pk p)"
    by blast
  have a: "assign_issue ex_world (Some 5) =
        (Some 42, Some (ustr ''Auto-assigned to Parshad Asha of ward 5''), ASSIGNED)"
    by (simp add: assign_issue_def f1)
       (simp add: ex_asha_def str_int_def digits_of.simps ustr_def)
  have c: "issues (fst (create_issue ex_settings ex_storage 100 WATER ex_description 0 0 (Some 5)
                  [ex_photo] ex_citizen ex_world)) = [ex_issue]"
    using create_issue_valid_issues [OF h1 h2 h3, of ex_storage 100 WATER "Some 5" ex_citizen ex_world]
    by (simp add: a ex_issue_def next_pk_def ex_citizen_def) (simp add: ex_world_def)
  have s: "status ex_issue = ASSIGNED" "assigned_parshad_id ex_issue = Some 42"
    by (simp_all add: ex_issue_def)
  show ?thesis
    using l1 l2 h1 h2 h3 u f1 f2 ex c s by blast
qed


section \<open>Properties of the read side\<close>

subsection \<open>Fresh keys\<close>

lemma fold_max_ge: "(k::int) \<in> set ks \<Longrightarrow> k \<le> fold max ks a"
proof (induction ks arbitrary: a)
  case Nil
  then show ?case by simp
next
  case (Cons x xs)
  have mono: "b \<le> fold max xs b" for b :: int
  proof (induction xs arbitrary: b)
    case Nil
    show ?case by simp
  next
    case (Cons y ys)
    have "b \<le> max y b" by simp
    also have "\<dots> \<le> fold max ys (max y b)" by (rule Cons.IH)
    finally show ?case by simp
  qed
  from Cons show ?case
  proof (cases "k = x")
    case True
    have "x \<le> max x a" by simp
    also have "\<dots> \<le> fold max xs (max x a)" by (rule mono)
    finally show ?thesis using True by simp
  next
    case False
    with Cons show ?thesis by simp
  qed
qed

lemma next_pk_fresh: "k \<in> set ks \<Longrightarrow> k < next_pk ks"
  using fold_max_ge [of k ks 0] by (simp add: next_pk_def)

lemma find_append_fresh:
  "\<forall>x\<in>set xs. \<not> P x \<Longrightarrow> P y \<Longrightarrow> find P (xs @ [y]) = Some y"
  by (induction xs) auto

lemma get_issue_row_new:
  assumes "issue_pk i = next_pk (map issue_pk (issues w))"
  shows "get_issue_row (w\<lparr>issues := issues w @ [i], issue_photos := ps, uploads := us\<rparr>)
           (next_pk (map issue_pk (issues w))) = Some i"
proof -
  have "\<forall>x\<in>set (issues w). \<not> issue_pk x = next_pk (map issue_pk (issues w))"
    using next_pk_fresh [of _ "map issue_pk (issues w)"] by fastforce
  then show ?thesis
    using assms by (simp add: get_issue_row_def find_append_fresh)
qed

subsection \<open>The assignment message\<close>

lemma ex_assign: "assign_issue ex_world (Some 5) =
        (Some 42, Some (ustr ''Auto-assigned to Parshad Asha of ward 5''), ASSIGNED)"
  by (simp add: assign_issue_def find_parshad_def first_row_def ex_world_def ex_asha_def
        ex_citizen_def str_int_def digits_of.simps ustr_def)

lemma ex_create_success:
  "create_issue ex_settings ex_storage 100 WATER ex_description 0 0 (Some 5)
     [ex_photo] ex_citizen ex_world = (ex_stored, Inr ex_response)"
proof -
  have v: "validate_photos ex_settings [ex_photo] = None"
    by (simp add: ex_settings_def ex_photo_def ustr_def)
  have n: "next_pk (map issue_pk (issues ex_world)) = 1"
      "next_pk (map photo_pk (issue_photos ex_world)) = 1"
    by (simp_all add: next_pk_def ex_world_def)
  have up: "upload_photos ex_storage 1 100 [ex_photo] (uploads ex_world) 1 [] =
        ([\<lparr>call_file_data = ''PNG'', call_filename = ustr ''leak.png'',
            call_content_type = ustr ''image/png''\<rparr>], Inr [ex_photo_row])"
    by (simp add: ex_storage_def ex_photo_def str_or_def ex_photo_row_def ex_world_def Let_def
          ustr_def)
  show ?thesis
    using ex_form_ok
    by (simp add: create_issue_def ex_assign v n up Let_def photos_of_def photo_response_def
          del: validate_photos.simps upload_photos.simps)
       (simp add: ex_settings_def ex_stored_def ex_response_def ex_issue_def ex_citizen_def
          ex_photo_row_def ex_storage_def ex_world_def ustr_def)
qed

text \<open>
  Claim C9. The response \<open>build_issue_response\<close> builds has \<open>assignment_message\<close> equal
  to \<open>None\<close> for every issue. The message is exposed by \<open>create_issue\<close> only: the
  response of a successful call carries the text about the representative found, or not
  found, for the locality given (and \<open>None\<close> without a locality), the new row keeps that
  very value in \<open>assignment_notes\<close>, and \<open>get_issue\<close> on the new row, which answers
  through \<open>build_issue_response\<close>, has \<open>assignment_message\<close> equal to \<open>None\<close>.
\<close>

theorem build_issue_response_hides_assignment_message:
  "r_assignment_message (build_issue_response st w issue) = None \<and>
   (create_issue s st now ity descr lat lon lid_opt photos cu w = (w', Inr created) \<longrightarrow>
      r_assignment_message created =
        (case lid_opt of
           None \<Rightarrow> None
         | Some lid \<Rightarrow>
             (case find_parshad w lid of
                Some parshad \<Rightarrow>
                  Some (ustr ''Auto-assigned to Parshad '' @ user_name parshad @
                        ustr '' of ward '' @ str_int lid)
              | None \<Rightarrow>
                  Some (ustr ''No Parshad assigned to ward '' @ str_int lid @
                        ustr ''. Issue is unassigned.''))) \<and>
      (\<exists>row. get_issue_row w' (r_id created) = Some row \<and>
             assignment_notes row = r_assignment_message created \<and>
             get_issue st w' (r_id created) = Inr (build_issue_response st w' row) \<and>
             r_assignment_message (build_issue_response st w' row) = None))"
proof (intro conjI impI)
  show "r_assignment_message (build_issue_response st w issue) = None"
    by (simp add: build_issue_response_def Let_def)
next
  assume c: "create_issue s st now ity descr lat lon lid_opt photos cu w = (w', Inr created)"
  obtain pid msg ist where a: "assign_issue w lid_opt = (pid, msg, ist)"
    by (cases "assign_issue w lid_opt") auto
  have m: "msg =
        (case lid_opt of
           None \<Rightarrow> None
         | Some lid \<Rightarrow>
             (case find_parshad w lid of
                Some parshad \<Rightarrow>
                  Some (ustr ''Auto-assigned to Parshad '' @ user_name parshad @
                        ustr '' of ward '' @ str_int lid)
              | None \<Rightarrow>
                  Some (ustr ''No Parshad assigned to ward '' @ str_int lid @
                        ustr ''. Issue is unassigned.'')))"
    using a by (auto simp: assign_issue_def split: option.splits)
  let ?new = "\<lparr>issue_pk = next_pk (map issue_pk (issues w)),
                issue_type = ity, description = descr, latitude = lat, longitude = lon,
                locality_id = lid_opt, status = ist, user_id = Some (user_pk cu),
                assigned_parshad_id = pid, assignment_notes = msg,
                progress_notes = None, completion_description = None,
                completion_photo_url = None, completed_at = None, completed_by_id = None,
                created_at = now, updated_at = now\<rparr>"
  from c a obtain calls pending where
    w': "w' = w\<lparr>issues := issues w @ [?new], issue_photos := issue_photos w @ pending,
                 uploads := calls\<rparr>"
    and r: "r_id created = next_pk (map issue_pk (issues w))"
           "r_assignment_message created = msg"
    by (auto simp: create_issue_def Let_def
          split: if_splits option.splits prod.splits sum.splits)
  have row: "get_issue_row w' (r_id created) = Some ?new"
    unfolding w' r by (rule get_issue_row_new) simp
  show "r_assignment_message created =
        (case lid_opt of
           None \<Rightarrow> None
         | Some lid \<Rightarrow>
             (case find_parshad w lid of
                Some parshad \<Rightarrow>
                  Some (ustr ''Auto-assigned to Parshad '' @ user_name parshad @
                        ustr '' of ward '' @ str_int lid)
              | None \<Rightarrow>
                  Some (ustr ''No Parshad assigned to ward '' @ str_int lid @
                        ustr ''. Issue is unassigned.'')))"
    using r m by simp
  show "\<exists>row. get_issue_row w' (r_id created) = Some row \<and>
             assignment_notes row = r_assignment_message created \<and>
             get_issue st w' (r_id created) = Inr (build_issue_response st w' row) \<and>
             r_assignment_message (build_issue_response st w' row) = None"
    using row r by (simp add: get_issue_def build_issue_response_def Let_def)
qed

text \<open>
  The call that creates the example issue succeeds: its response names Asha, the stored
  row keeps the text in \<open>assignment_notes\<close>, and reading the issue back shows no message.
\<close>

theorem build_issue_response_hides_assignment_message_witness:
  "create_issue ex_settings ex_storage 100 WATER ex_description 0 0 (Some 5)
     [ex_photo] ex_citizen ex_world = (ex_stored, Inr ex_response) \<and>
   find_parshad ex_world 5 = Some ex_asha \<and>
   r_assignment_message ex_response = Some (ustr ''Auto-assigned to Parshad Asha of ward 5'') \<and>
   r_id ex_response = 1 \<and>
   get_issue_row ex_stored 1 = Some ex_issue \<and>
   assignment_notes ex_issue = Some (ustr ''Auto-assigned to Parshad Asha of ward 5'') \<and>
   get_issue ex_storage ex_stored 1 = Inr (build_issue_response ex_storage ex_stored ex_issue) \<and>
   r_assignment_message (build_issue_response ex_storage ex_stored ex_issue) = None"
proof -
  note c = ex_create_success
  have f: "find_parshad ex_world 5 = Some ex_asha"
    by (simp add: find_parshad_def first_row_def ex_world_def ex_asha_def ex_citizen_def)
  have g: "get_issue_row ex_stored 1 = Some ex_issue"
    by (simp add: get_issue_row_def ex_stored_def ex_issue_def)
  have i: "r_id ex_response = 1" by (simp add: ex_response_def)
  note t = build_issue_response_hides_assignment_message
      [where st = ex_storage and w = ex_world and issue = ex_issue and s = ex_settings
         and now = 100 and ity = WATER and descr = ex_description and lat = 0 and lon = 0
         and lid_opt = "Some 5" and photos = "[ex_photo]" and cu = ex_citizen
         and w' = ex_stored and created = ex_response]
  note tc = t [THEN conjunct2, THEN mp, OF c]
  have m: "r_assignment_message ex_response =
        Some (ustr ''Auto-assigned to Parshad '' @ user_name ex_asha @
              ustr '' of ward '' @ str_int 5)"
    using tc [THEN conjunct1] by (simp add: f)
  have e: "\<exists>row. get_issue_row ex_stored (r_id ex_response) = Some row \<and>
             assignment_notes row = r_assignment_message ex_response \<and>
             get_issue ex_storage ex_stored (r_id ex_response) =
               Inr (build_issue_response ex_storage ex_stored row) \<and>
             r_assignment_message (build_issue_response ex_storage ex_stored row) = None"
    by (rule tc [THEN conjunct2])
  have msg_text: "ustr ''Auto-assigned to Parshad '' @ user_name ex_asha @
              ustr '' of ward '' @ str_int 5 = ustr ''Auto-assigned to Parshad Asha of ward 5''"
    by (simp add: ex_asha_def str_int_def digits_of.simps ustr_def)
  from e g i have
    "assignment_notes ex_issue = r_assignment_message ex_response \<and>
     get_issue ex_storage ex_stored 1 = Inr (build_issue_response ex_storage ex_stored ex_issue) \<and>
     r_assignment_message (build_issue_response ex_storage ex_stored ex_issue) = None"
    by auto
  with c f g i m msg_text show ?thesis by simp
qed


subsection \<open>Inactive localities\<close>

lemma find_filter_out:
  "find P (filter (\<lambda>x. \<not> P x) xs) = None"
  by (induction xs) auto

lemma find_map_activate:
  assumes "find (\<lambda>l. locality_pk l = k) xs = Some x"
  shows "find (\<lambda>l. locality_pk l = k)
           (map (\<lambda>l. if locality_pk l = k then l\<lparr>locality_is_active := True\<rparr> else l) xs) =
         Some (x\<lparr>locality_is_active := True\<rparr>)"
  using assms by (induction xs) (auto split: if_splits)

text \<open>
  Claim C10, as amended. For a locality whose \<open>is_active\<close> flag is false,
  \<open>get_locality_details\<close> fails with status code 404 and the detail "Locality not found",
  which is the very answer it gives once the row is removed from the table; with the
  flag set, the same row is answered with its id, name and type.
\<close>

theorem get_locality_details_inactive_not_found:
  assumes "get_locality w lid = Some locality"
      and "locality_is_active locality = False"
  shows "get_locality_details w lid = Inl (HTTPException 404 LocalityNotFound) \<and>
         get_locality_details w lid =
           get_locality_details
             (w\<lparr>localities := filter (\<lambda>l. locality_pk l \<noteq> lid) (localities w)\<rparr>) lid \<and>
         (\<exists>r. get_locality_details
                (w\<lparr>localities := map (\<lambda>l. if locality_pk l = lid
                                            then l\<lparr>locality_is_active := True\<rparr> else l)
                                      (localities w)\<rparr>) lid = Inr r \<and>
              lp_id r = lid \<and> lp_name r = locality_name locality \<and>
              lp_type r = locality_type locality)"
proof -
  have absent: "get_locality (w\<lparr>localities := filter (\<lambda>l. locality_pk l \<noteq> lid) (localities w)\<rparr>) lid = None"
    by (simp add: get_locality_def find_filter_out [of "\<lambda>l. locality_pk l = lid"])
  have f: "find (\<lambda>l. locality_pk l = lid) (localities w) = Some locality"
    using assms(1) by (simp add: get_locality_def)
  have pk: "locality_pk locality = lid"
    using f by (auto simp: find_Some_iff)
  have active: "get_locality
                  (w\<lparr>localities := map (\<lambda>l. if locality_pk l = lid
                                            then l\<lparr>locality_is_active := True\<rparr> else l)
                                      (localities w)\<rparr>) lid =
                Some (locality\<lparr>locality_is_active := True\<rparr>)"
    using find_map_activate [OF f] by (simp add: get_locality_def)
  have a: "get_locality_details w lid = Inl (HTTPException 404 LocalityNotFound)"
    using assms by (simp add: get_locality_details_def)
  have b: "get_locality_details
             (w\<lparr>localities := filter (\<lambda>l. locality_pk l \<noteq> lid) (localities w)\<rparr>) lid =
           Inl (HTTPException 404 LocalityNotFound)"
    using absent by (simp add: get_locality_details_def)
  have c: "\<exists>r. get_locality_details
                (w\<lparr>localities := map (\<lambda>l. if locality_pk l = lid
                                            then l\<lparr>locality_is_active := True\<rparr> else l)
                                      (localities w)\<rparr>) lid = Inr r \<and>
              lp_id r = lid \<and> lp_name r = locality_name locality \<and>
              lp_type r = locality_type locality"
    using pk by (simp add: get_locality_details_def active Let_def)
  show ?thesis using a b c by simp
qed

text \<open>Locality 5 of the example data is inactive.\<close>

theorem get_locality_details_inactive_not_found_witness:
  "get_locality ex_world 5 =
     Some \<lparr>locality_pk = 5, locality_name = ustr ''Ward 5'',
            locality_type = WARD, locality_is_active = False\<rparr> \<and>
   get_locality_details ex_world 5 = Inl (HTTPException 404 LocalityNotFound) \<and>
   get_locality_details ex_world 5 =
     get_locality_details
       (ex_world\<lparr>localities := filter (\<lambda>l. locality_pk l \<noteq> 5) (localities ex_world)\<rparr>) 5 \<and>
   (\<exists>r. get_locality_details
          (ex_world\<lparr>localities := map (\<lambda>l. if locality_pk l = 5
                                             then l\<lparr>locality_is_active := True\<rparr> else l)
                                       (localities ex_world)\<rparr>) 5 = Inr r \<and>
        lp_id r = 5 \<and> lp_name r = ustr ''Ward 5'' \<and> lp_type r = WARD)"
proof -
  have h1: "get_locality ex_world 5 =
     Some \<lparr>locality_pk = 5, locality_name = ustr ''Ward 5'',
            locality_type = WARD, locality_is_active = False\<rparr>"
    by (simp add: get_locality_def ex_world_def)
  have h2: "locality_is_active \<lparr>locality_pk = 5, locality_name = ustr ''Ward 5'',
            locality_type = WARD, locality_is_active = False\<rparr> = False"
    by simp
  note t = get_locality_details_inactive_not_found [OF h1 h2]
  have t3: "\<exists>r. get_locality_details
          (ex_world\<lparr>localities := map (\<lambda>l. if locality_pk l = 5
                                             then l\<lparr>locality_is_active := True\<rparr> else l)
                                       (localities ex_world)\<rparr>) 5 = Inr r \<and>
        lp_id r = 5 \<and> lp_name r = ustr ''Ward 5'' \<and> lp_type r = WARD"
    using t [THEN conjunct2, THEN conjunct2] by simp
  show ?thesis
    using h1 t [THEN conjunct1] t [THEN conjunct2, THEN conjunct1] t3 by blast
qed

text \<open>
  Claim C10 as stated concludes that an inactive locality cannot be told from an absent
  one at the public interface. \<open>get_issue\<close> tells them apart: \<open>build_issue_response\<close>
  looks the locality of an issue up without reading its \<open>is_active\<close> flag, so the issue
  of the inactive locality 5 is answered with the name and the type of the locality,
  and with neither once the locality row is gone, while \<open>get_locality_details\<close> answers
  404 in both states.
\<close>

theorem get_issue_shows_inactive_locality_counterexample:
  "get_locality ex_stored 5 =
     Some \<lparr>locality_pk = 5, locality_name = ustr ''Ward 5'',
            locality_type = WARD, locality_is_active = False\<rparr> \<and>
   get_locality_details ex_stored 5 = Inl (HTTPException 404 LocalityNotFound) \<and>
   get_locality_details (ex_stored\<lparr>localities := []\<rparr>) 5 =
     Inl (HTTPException 404 LocalityNotFound) \<and>
   map_sum id (\<lambda>r. (r_locality_id r, r_locality_name r, r_locality_type r))
     (get_issue ex_storage ex_stored 1) =
     Inr (Some 5, Some (ustr ''Ward 5''), Some (ustr ''ward'')) \<and>
   map_sum id (\<lambda>r. (r_locality_id r, r_locality_name r, r_locality_type r))
     (get_issue ex_storage (ex_stored\<lparr>localities := []\<rparr>) 1) = Inr (Some 5, None, None)"
  by (simp add: ex_stored_def get_locality_def get_locality_details_def get_issue_def
        get_issue_row_def build_issue_response_def Let_def LocalityType_value_def
        ex_world_def ex_issue_def)

section \<open>A failed upload\<close>

text \<open>
  Claim C3 says that a call whose photo upload fails leaves the persisted state as it was
  before the call. The issue row is committed before the loop that uploads the photos,
  and the rollback in the exception handler discards the pending photo rows only. With a
  storage service that refuses every upload, the call on the example data fails with
  status code 500 and no photo row, and the issue table holds the new row.
\<close>

lemma create_issue_failed_upload_example:
  "create_issue ex_settings ex_failing_storage 100 WATER ex_description 0 0 (Some 5)
     [ex_photo] ex_citizen ex_world =
   (ex_world\<lparr>issues :=
      [\<lparr>issue_pk = 1, issue_type = WATER, description = ex_description,
        latitude = 0, longitude = 0, locality_id = Some 5, status = ASSIGNED,
        user_id = Some 7, assigned_parshad_id = Some 42,
        assignment_notes = Some (ustr ''Auto-assigned to Parshad Asha of ward 5''),
        progress_notes = None, completion_description = None,
        completion_photo_url = None, completed_at = None, completed_by_id = None,
        created_at = 100, updated_at = 100\<rparr>]\<rparr>,
    Inl (HTTPException 500 (FailedToUploadPhoto (ustr ''connection refused''))))"
proof -
  have a: "assign_issue ex_world (Some 5) =
        (Some 42, Some (ustr ''Auto-assigned to Parshad Asha of ward 5''), ASSIGNED)"
    by (simp add: assign_issue_def find_parshad_def first_row_def ex_world_def ex_asha_def
          ex_citizen_def str_int_def digits_of.simps ustr_def)
  have v: "validate_photos ex_settings [ex_photo] = None"
    by (simp add: ex_settings_def ex_photo_def ustr_def)
  show ?thesis
    using ex_form_ok
    by (simp add: create_issue_def a Let_def ex_settings_def ex_photo_def
          ex_failing_storage_def next_pk_def ex_citizen_def)
       (simp add: ex_world_def ustr_def)
qed

text \<open>
  The same happens in a batch of two photos when the first upload succeeds and the
  second is refused: the call fails with status code 500, the first file stays in the
  storage service, no photo row is persisted, and the issue table holds the new row.
\<close>

lemma create_issue_second_upload_fails_example:
  "create_issue ex_settings ex_flaky_storage 100 WATER ex_description 0 0 (Some 5)
     [ex_photo, ex_photo] ex_citizen ex_world =
   (ex_world\<lparr>issues := [ex_issue],
             uploads := [\<lparr>call_file_data = ''PNG'', call_filename = ustr ''leak.png'',
                          call_content_type = ustr ''image/png''\<rparr>]\<rparr>,
    Inl (HTTPException 500 (FailedToUploadPhoto (ustr ''connection refused''))))"
proof -
  have a: "assign_issue ex_world (Some 5) =
        (Some 42, Some (ustr ''Auto-assigned to Parshad Asha of ward 5''), ASSIGNED)"
    by (simp add: assign_issue_def find_parshad_def first_row_def ex_world_def ex_asha_def
          ex_citizen_def str_int_def digits_of.simps ustr_def)
  have v: "validate_photos ex_settings [ex_photo, ex_photo] = None"
    by (simp add: ex_settings_def ex_photo_def ustr_def)
  have n: "next_pk (map issue_pk (issues ex_world)) = 1"
      "next_pk (map photo_pk (issue_photos ex_world)) = 1"
    by (simp_all add: next_pk_def ex_world_def)
  have up: "upload_photos ex_flaky_storage 1 100 [ex_photo, ex_photo] (uploads ex_world) 1 [] =
        ([\<lparr>call_file_data = ''PNG'', call_filename = ustr ''leak.png'',
            call_content_type = ustr ''image/png''\<rparr>], Inl (ustr ''connection refused''))"
    by (simp add: ex_flaky_storage_def ex_photo_def str_or_def ex_world_def Let_def ustr_def)
  show ?thesis
    using ex_form_ok
    by (simp add: create_issue_def a v n up Let_def
          del: validate_photos.simps upload_photos.simps)
       (simp add: ex_settings_def ex_issue_def ex_citizen_def ex_world_def)
qed

section \<open>Properties of the status transitions\<close>

subsection \<open>The example life cycle\<close>

lemma ex_created_eval:
  "ex_created = ex_world\<lparr>issues := [ex_issue]\<rparr>"
proof -
  have a: "assign_issue ex_world (Some 5) =
        (Some 42, Some (ustr ''Auto-assigned to Parshad Asha of ward 5''), ASSIGNED)"
    by (simp add: assign_issue_def find_parshad_def first_row_def ex_world_def ex_asha_def
          ex_citizen_def str_int_def digits_of.simps ustr_def)
  show ?thesis
    unfolding ex_created_def
    using ex_form_ok
    by (simp add: create_issue_def a Let_def ex_settings_def next_pk_def ex_citizen_def
          ex_issue_def)
       (simp add: ex_world_def)
qed

lemma ex_acknowledged_eval:
  "ex_acknowledged =
     ex_world\<lparr>issues := [ex_issue\<lparr>status := REPRESENTATIVE_ACKNOWLEDGED, updated_at := 200\<rparr>]\<rparr>"
  by (simp add: ex_acknowledged_def ex_created_eval TransitionIssue_def get_issue_row_def
        transition_issue_def ex_issue_def ex_asha_def)

lemma ex_working_eval:
  "ex_working = ex_world\<lparr>issues := [ex_issue\<lparr>status := PWD_WORKING, updated_at := 300\<rparr>]\<rparr>"
  by (simp add: ex_working_def ex_acknowledged_eval TransitionIssue_def get_issue_row_def
        transition_issue_def ex_issue_def ex_worker_def)

lemma ex_completed_eval:
  "ex_completed =
     ex_world\<lparr>issues :=
       [ex_issue\<lparr>status := PWD_COMPLETED,
                 completion_description := Some (ustr ''Pipe replaced''),
                 completion_photo_url := None,
                 completed_at := Some 400,
                 completed_by_id := Some 9,
                 updated_at := 400\<rparr>]\<rparr>"
  by (simp add: ex_completed_def ex_working_eval TransitionIssue_def get_issue_row_def
        transition_issue_def ex_issue_def ex_worker_def)

lemma reachable_ex_world: "reachable ex_world"
  unfolding ex_world_def by (rule reachable.start)

lemma reachable_ex_completed: "reachable ex_completed"
  unfolding ex_completed_def ex_working_def ex_acknowledged_def ex_created_def
  by (intro reachable.transitioned reachable.created reachable_ex_world)

subsection \<open>Only the successor is accepted\<close>

lemma transition_issue_success:
  assumes "transition_issue now issue u target payload = Inr issue'"
  shows "next_status (status issue) = Some target \<and> may_perform u issue target \<and>
         status issue' = target"
  using assms
  by (auto simp: transition_issue_def split: if_splits option.splits)

lemma transition_issue_reject:
  assumes "next_status (status issue) \<noteq> Some target"
  shows "transition_issue now issue u target payload =
         Inl (InvalidTransition (expected_status target) (status issue))"
  using assms by (simp add: transition_issue_def)

lemma find_map_replace:
  assumes "find (\<lambda>i. issue_pk i = k) xs = Some x" and "issue_pk y = k"
  shows "find (\<lambda>i. issue_pk i = k) (map (\<lambda>i. if issue_pk i = k then y else i) xs) = Some y"
  using assms by (induction xs) (auto split: if_splits)

lemma transition_issue_pk:
  assumes "transition_issue now issue u target payload = Inr issue'"
  shows "issue_pk issue' = issue_pk issue"
  using assms by (auto simp: transition_issue_def split: if_splits option.splits)

lemma transition_issue_Inr_iff:
  "(\<exists>issue'. transition_issue now issue u target payload = Inr issue') \<longleftrightarrow>
     next_status (status issue) = Some target \<and> may_perform u issue target \<and>
     (target = PWD_COMPLETED \<longrightarrow> payload \<noteq> None)"
  by (auto simp: transition_issue_def split: option.splits)

lemma transition_issue_refuse:
  assumes "next_status (status issue) \<noteq> Some target \<or> \<not> may_perform u issue target"
  shows "transition_issue now issue u target payload =
         Inl (InvalidTransition (expected_status target) (status issue))"
  using assms by (auto simp: transition_issue_def)

lemma get_issue_row_pk:
  assumes "get_issue_row w k = Some issue"
  shows "issue_pk issue = k"
  using assms unfolding get_issue_row_def by (auto simp: find_Some_iff)

text \<open>
  Claim C2, as amended. For every stored issue and every target status,
  \<open>TransitionIssue\<close> succeeds if and only if the target is the immediate successor of the
  issue's current status in the order of the six states, the caller is the one the
  transition table names for that step, and the payload is given when the target is
  \<open>PWD_COMPLETED\<close>. When it succeeds, the issue it returns has the target status and is
  the row now stored; when it fails, the stored state is unchanged. A target that is not
  the successor, or a caller the table does not name, fails with \<open>InvalidTransition\<close>,
  naming the expected and the actual state, and repeating the call yields the same error
  and the same stored state.
\<close>

theorem TransitionIssue_only_successor:
  assumes "get_issue_row w issue_id = Some issue"
  shows "((\<exists>issue'. snd (TransitionIssue now w issue_id u target payload) = Inr issue') \<longleftrightarrow>
            next_status (status issue) = Some target \<and> may_perform u issue target \<and>
            (target = PWD_COMPLETED \<longrightarrow> payload \<noteq> None)) \<and>
         (\<forall>issue'. snd (TransitionIssue now w issue_id u target payload) = Inr issue' \<longrightarrow>
            status issue' = target \<and>
            get_issue_row (fst (TransitionIssue now w issue_id u target payload)) issue_id =
              Some issue') \<and>
         (\<forall>e. snd (TransitionIssue now w issue_id u target payload) = Inl e \<longrightarrow>
            fst (TransitionIssue now w issue_id u target payload) = w) \<and>
         (next_status (status issue) \<noteq> Some target \<or> \<not> may_perform u issue target \<longrightarrow>
            TransitionIssue now w issue_id u target payload =
              (w, Inl (InvalidTransition (expected_status target) (status issue))) \<and>
            TransitionIssue now' (fst (TransitionIssue now w issue_id u target payload))
                issue_id u target payload =
              (w, Inl (InvalidTransition (expected_status target) (status issue))))"
proof -
  have res: "snd (TransitionIssue now w issue_id u target payload) =
             transition_issue now issue u target payload"
    using assms by (simp add: TransitionIssue_def split: sum.splits)
  have iff: "(\<exists>issue'. snd (TransitionIssue now w issue_id u target payload) = Inr issue') \<longleftrightarrow>
            next_status (status issue) = Some target \<and> may_perform u issue target \<and>
            (target = PWD_COMPLETED \<longrightarrow> payload \<noteq> None)"
    unfolding res by (rule transition_issue_Inr_iff)
  have ok: "status issue' = target \<and>
            get_issue_row (fst (TransitionIssue now w issue_id u target payload)) issue_id =
              Some issue'"
    if s: "snd (TransitionIssue now w issue_id u target payload) = Inr issue'" for issue'
  proof -
    from s have t: "transition_issue now issue u target payload = Inr issue'"
      by (simp add: res)
    have pk: "issue_pk issue' = issue_id"
      using transition_issue_pk [OF t] get_issue_row_pk [OF assms] by simp
    have f: "find (\<lambda>i. issue_pk i = issue_id) (issues w) = Some issue"
      using assms by (simp add: get_issue_row_def)
    have "get_issue_row (fst (TransitionIssue now w issue_id u target payload)) issue_id =
              Some issue'"
      using assms t find_map_replace [OF f pk]
      by (simp add: TransitionIssue_def get_issue_row_def)
    moreover have "status issue' = target"
      using transition_issue_success [OF t] by simp
    ultimately show ?thesis by simp
  qed
  have unchanged: "fst (TransitionIssue now w issue_id u target payload) = w"
    if "snd (TransitionIssue now w issue_id u target payload) = Inl e" for e
    using that assms by (simp add: TransitionIssue_def split: sum.splits)
  have rej: "TransitionIssue t w issue_id u target payload =
         (w, Inl (InvalidTransition (expected_status target) (status issue)))"
    if "next_status (status issue) \<noteq> Some target \<or> \<not> may_perform u issue target" for t
    using assms transition_issue_refuse [OF that] by (simp add: TransitionIssue_def)
  have twice: "TransitionIssue now w issue_id u target payload =
              (w, Inl (InvalidTransition (expected_status target) (status issue))) \<and>
            TransitionIssue now' (fst (TransitionIssue now w issue_id u target payload))
                issue_id u target payload =
              (w, Inl (InvalidTransition (expected_status target) (status issue)))"
    if b: "next_status (status issue) \<noteq> Some target \<or> \<not> may_perform u issue target"
    by (simp add: rej [OF b])
  show ?thesis
    using iff ok unchanged twice by blast
qed

text \<open>
  On the issue just created and assigned: Asha, the representative assigned, names the
  successor and her acknowledgement succeeds and is stored; the crew worker's attempt to
  skip to \<open>PWD_WORKING\<close> is rejected twice with the same answer.
\<close>

theorem TransitionIssue_only_successor_witness:
  "get_issue_row ex_created 1 = Some ex_issue \<and>
   next_status (status ex_issue) = Some REPRESENTATIVE_ACKNOWLEDGED \<and>
   may_perform ex_asha ex_issue REPRESENTATIVE_ACKNOWLEDGED \<and>
   (\<exists>issue'. snd (TransitionIssue 200 ex_created 1 ex_asha REPRESENTATIVE_ACKNOWLEDGED None) =
      Inr issue' \<and> status issue' = REPRESENTATIVE_ACKNOWLEDGED \<and>
      get_issue_row (fst (TransitionIssue 200 ex_created 1 ex_asha REPRESENTATIVE_ACKNOWLEDGED None)) 1 =
        Some issue') \<and>
   next_status (status ex_issue) \<noteq> Some PWD_WORKING \<and>
   TransitionIssue 200 ex_created 1 ex_worker PWD_WORKING None =
     (ex_created, Inl (InvalidTransition (Some REPRESENTATIVE_ACKNOWLEDGED) ASSIGNED)) \<and>
   TransitionIssue 201 (fst (TransitionIssue 200 ex_created 1 ex_worker PWD_WORKING None))
       1 ex_worker PWD_WORKING None =
     (ex_created, Inl (InvalidTransition (Some REPRESENTATIVE_ACKNOWLEDGED) ASSIGNED))"
proof -
  have h: "get_issue_row ex_created 1 = Some ex_issue"
    by (simp add: ex_created_eval get_issue_row_def ex_issue_def)
  have st: "status ex_issue = ASSIGNED" by (simp add: ex_issue_def)
  have nx: "next_status (status ex_issue) = Some REPRESENTATIVE_ACKNOWLEDGED"
    by (simp add: st)
  have mp: "may_perform ex_asha ex_issue REPRESENTATIVE_ACKNOWLEDGED"
    by (simp add: ex_issue_def ex_asha_def)
  have bad: "next_status (status ex_issue) \<noteq> Some PWD_WORKING"
    by (simp add: st)
  note good = TransitionIssue_only_successor
    [OF h, where now = 200 and u = ex_asha and target = REPRESENTATIVE_ACKNOWLEDGED
       and payload = None and now' = 201]
  from good nx mp
  have ex: "\<exists>issue'. snd (TransitionIssue 200 ex_created 1 ex_asha REPRESENTATIVE_ACKNOWLEDGED None) =
      Inr issue'"
    by blast
  then obtain issue' where
    s: "snd (TransitionIssue 200 ex_created 1 ex_asha REPRESENTATIVE_ACKNOWLEDGED None) = Inr issue'"
    by blast
  from good s
  have upd: "status issue' = REPRESENTATIVE_ACKNOWLEDGED \<and>
      get_issue_row (fst (TransitionIssue 200 ex_created 1 ex_asha REPRESENTATIVE_ACKNOWLEDGED None)) 1 =
        Some issue'"
    by blast
  from TransitionIssue_only_successor
    [OF h, where now = 200 and u = ex_worker and target = PWD_WORKING
       and payload = None and now' = 201] bad
  have r: "TransitionIssue 200 ex_created 1 ex_worker PWD_WORKING None =
     (ex_created, Inl (InvalidTransition (Some REPRESENTATIVE_ACKNOWLEDGED) ASSIGNED)) \<and>
    TransitionIssue 201 (fst (TransitionIssue 200 ex_created 1 ex_worker PWD_WORKING None))
       1 ex_worker PWD_WORKING None =
     (ex_created, Inl (InvalidTransition (Some REPRESENTATIVE_ACKNOWLEDGED) ASSIGNED))"
    unfolding st expected_status.simps by blast
  show ?thesis
    using h nx mp s upd bad r by blast
qed

text \<open>
  Claim C2 as stated says that a target that is the immediate successor always
  succeeds. The transition table also names the caller: the citizen's attempt to
  acknowledge the assigned issue names the immediate successor and fails.
\<close>

theorem TransitionIssue_successor_refused_counterexample:
  "get_issue_row ex_created 1 = Some ex_issue \<and>
   next_status (status ex_issue) = Some REPRESENTATIVE_ACKNOWLEDGED \<and>
   TransitionIssue 200 ex_created 1 ex_citizen REPRESENTATIVE_ACKNOWLEDGED None =
     (ex_created, Inl (InvalidTransition (Some ASSIGNED) ASSIGNED))"
  by (simp add: ex_created_eval TransitionIssue_def get_issue_row_def
        transition_issue_def ex_issue_def ex_citizen_def)


subsection \<open>The completion fields\<close>

lemma transition_issue_inv:
  assumes "completion_inv issue"
      and "transition_issue now issue u target payload = Inr issue'"
  shows "completion_inv issue'"
  using assms
  by (cases "status issue"; cases target)
     (auto simp: transition_issue_def completion_inv_def completed_stage_def
           split: if_splits option.splits)

lemma create_issue_issues_cases:
  "issues (fst (create_issue s st now ity descr lat lon lid_opt photos cu w)) = issues w \<or>
   (\<exists>i. issues (fst (create_issue s st now ity descr lat lon lid_opt photos cu w)) =
           issues w @ [i] \<and>
         \<not> completed_stage (status i) \<and>
         completion_description i = None \<and> completion_photo_url i = None \<and>
         completed_at i = None \<and> completed_by_id i = None)"
proof (cases "form_ok descr lat lon \<and> int (length photos) \<le> max_photos_per_issue s \<and>
              validate_photos s photos = None")
  case True
  then have "issues (fst (create_issue s st now ity descr lat lon lid_opt photos cu w)) =
         issues w @
         [\<lparr>issue_pk = next_pk (map issue_pk (issues w)),
           issue_type = ity, description = descr, latitude = lat, longitude = lon,
           locality_id = lid_opt,
           status = snd (snd (assign_issue w lid_opt)),
           user_id = Some (user_pk cu),
           assigned_parshad_id = fst (assign_issue w lid_opt),
           assignment_notes = fst (snd (assign_issue w lid_opt)),
           progress_notes = None, completion_description = None,
           completion_photo_url = None, completed_at = None, completed_by_id = None,
           created_at = now, updated_at = now\<rparr>]"
    using create_issue_valid_issues by blast
  moreover have "\<not> completed_stage (snd (snd (assign_issue w lid_opt)))"
    by (simp add: assign_issue_def completed_stage_def split: option.splits)
  ultimately show ?thesis by simp
next
  case False
  then have "fst (create_issue s st now ity descr lat lon lid_opt photos cu w) = w"
    by (auto simp: create_issue_def split: option.splits)
  then show ?thesis by simp
qed

lemma reachable_completion_inv:
  assumes "reachable w"
  shows "\<forall>i\<in>set (issues w). completion_inv i"
  using assms
proof (induction rule: reachable.induct)
  case (start ls us)
  show ?case by simp
next
  case (directory w ls us)
  then show ?case by simp
next
  case (created w s st now ity descr lat lon lid_opt photos cu)
  from create_issue_issues_cases [of s st now ity descr lat lon lid_opt photos cu w]
  show ?case
  proof
    assume "issues (fst (create_issue s st now ity descr lat lon lid_opt photos cu w)) = issues w"
    with created.IH show ?thesis by simp
  next
    assume "\<exists>i. issues (fst (create_issue s st now ity descr lat lon lid_opt photos cu w)) =
           issues w @ [i] \<and>
         \<not> completed_stage (status i) \<and>
         completion_description i = None \<and> completion_photo_url i = None \<and>
         completed_at i = None \<and> completed_by_id i = None"
    then obtain i where
      "issues (fst (create_issue s st now ity descr lat lon lid_opt photos cu w)) = issues w @ [i]"
      "completion_inv i"
      by (auto simp: completion_inv_def)
    with created.IH show ?thesis by simp
  qed
next
  case (transitioned w now issue_id u target payload)
  show ?case
  proof (cases "get_issue_row w issue_id")
    case None
    with transitioned.IH show ?thesis by (simp add: TransitionIssue_def)
  next
    case (Some issue)
    then have mem: "issue \<in> set (issues w)"
      by (auto simp: get_issue_row_def find_Some_iff)
    show ?thesis
    proof (cases "transition_issue now issue u target payload")
      case (Inl e)
      with Some transitioned.IH show ?thesis by (simp add: TransitionIssue_def)
    next
      case (Inr issue')
      with mem transitioned.IH have "completion_inv issue'"
        using transition_issue_inv by blast
      with Some Inr transitioned.IH show ?thesis
        by (auto simp: TransitionIssue_def)
    qed
  qed
qed

text \<open>
  Claim C6, as amended. In every reachable state and for every stored issue, the
  completion description, \<open>completed_at\<close> and \<open>completed_by_id\<close> are all null (and then the
  completion photo is null too, and the issue is before \<open>PWD_COMPLETED\<close>) or all non-null
  (and then the issue is at \<open>PWD_COMPLETED\<close> or beyond). A successful transition to
  \<open>PWD_COMPLETED\<close> starts from \<open>PWD_WORKING\<close> with \<open>completed_at\<close> null, stores the payload's
  description and optional photo, and sets \<open>completed_at\<close> to the current time and
  \<open>completed_by_id\<close> to the acting worker; every other successful transition leaves the
  four fields as they are. So the fields are set exactly once.
\<close>

theorem completion_fields_set_once:
  assumes "reachable w" and "issue \<in> set (issues w)"
  shows "((completion_description issue = None \<and> completion_photo_url issue = None \<and>
           completed_at issue = None \<and> completed_by_id issue = None \<and>
           \<not> completed_stage (status issue)) \<or>
          (completion_description issue \<noteq> None \<and> completed_at issue \<noteq> None \<and>
           completed_by_id issue \<noteq> None \<and> completed_stage (status issue))) \<and>
         (\<forall>now u target payload issue'.
            transition_issue now issue u target payload = Inr issue' \<longrightarrow>
            (if target = PWD_COMPLETED
             then status issue = PWD_WORKING \<and> completed_at issue = None \<and>
                  (\<exists>p. payload = Some p \<and>
                       completion_description issue' = Some (payload_description p) \<and>
                       completion_photo_url issue' = payload_photo p) \<and>
                  completed_at issue' = Some now \<and>
                  completed_by_id issue' = Some (user_pk u)
             else completion_description issue' = completion_description issue \<and>
                  completion_photo_url issue' = completion_photo_url issue \<and>
                  completed_at issue' = completed_at issue \<and>
                  completed_by_id issue' = completed_by_id issue))"
proof
  from assms have inv: "completion_inv issue"
    using reachable_completion_inv by blast
  then show "(completion_description issue = None \<and> completion_photo_url issue = None \<and>
           completed_at issue = None \<and> completed_by_id issue = None \<and>
           \<not> completed_stage (status issue)) \<or>
          (completion_description issue \<noteq> None \<and> completed_at issue \<noteq> None \<and>
           completed_by_id issue \<noteq> None \<and> completed_stage (status issue))"
    by (auto simp: completion_inv_def split: if_splits)
  show "\<forall>now u target payload issue'.
            transition_issue now issue u target payload = Inr issue' \<longrightarrow>
            (if target = PWD_COMPLETED
             then status issue = PWD_WORKING \<and> completed_at issue = None \<and>
                  (\<exists>p. payload = Some p \<and>
                       completion_description issue' = Some (payload_description p) \<and>
                       completion_photo_url issue' = payload_photo p) \<and>
                  completed_at issue' = Some now \<and>
                  completed_by_id issue' = Some (user_pk u)
             else completion_description issue' = completion_description issue \<and>
                  completion_photo_url issue' = completion_photo_url issue \<and>
                  completed_at issue' = completed_at issue \<and>
                  completed_by_id issue' = completed_by_id issue)"
  proof (intro allI impI)
    fix now u target payload issue'
    assume t: "transition_issue now issue u target payload = Inr issue'"
    show "if target = PWD_COMPLETED
             then status issue = PWD_WORKING \<and> completed_at issue = None \<and>
                  (\<exists>p. payload = Some p \<and>
                       completion_description issue' = Some (payload_description p) \<and>
                       completion_photo_url issue' = payload_photo p) \<and>
                  completed_at issue' = Some now \<and>
                  completed_by_id issue' = Some (user_pk u)
             else completion_description issue' = completion_description issue \<and>
                  completion_photo_url issue' = completion_photo_url issue \<and>
                  completed_at issue' = completed_at issue \<and>
                  completed_by_id issue' = completed_by_id issue"
    proof (cases "target = PWD_COMPLETED")
      case True
      with t have st: "status issue = PWD_WORKING"
        by (cases "status issue") (auto simp: transition_issue_def split: if_splits)
      with inv have "completed_at issue = None"
        by (simp add: completion_inv_def completed_stage_def)
      with True t st show ?thesis
        by (auto simp: transition_issue_def split: if_splits option.splits)
    next
      case False
      with t show ?thesis
        by (auto simp: transition_issue_def split: if_splits)
    qed
  qed
qed

lemma reachable_ex_working: "reachable ex_working"
  unfolding ex_working_def ex_acknowledged_def ex_created_def
  by (intro reachable.transitioned reachable.created reachable_ex_world)

text \<open>The crew worker completes the example issue at time 400.\<close>

theorem completion_fields_set_once_witness:
  "reachable ex_working \<and>
   ex_issue\<lparr>status := PWD_WORKING, updated_at := 300\<rparr> \<in> set (issues ex_working) \<and>
   transition_issue 400 (ex_issue\<lparr>status := PWD_WORKING, updated_at := 300\<rparr>) ex_worker
       PWD_COMPLETED (Some \<lparr>payload_description = ustr ''Pipe replaced'', payload_photo = None\<rparr>) =
     Inr ex_done \<and>
   completed_at (ex_issue\<lparr>status := PWD_WORKING, updated_at := 300\<rparr>) = None \<and>
   completion_description ex_done = Some (ustr ''Pipe replaced'') \<and>
   completed_at ex_done = Some 400 \<and>
   completed_by_id ex_done = Some (user_pk ex_worker)"
proof -
  let ?i = "ex_issue\<lparr>status := PWD_WORKING, updated_at := 300\<rparr>"
  let ?p = "\<lparr>payload_description = ustr ''Pipe replaced'', payload_photo = None\<rparr>"
  have m: "?i \<in> set (issues ex_working)"
    by (simp add: ex_working_eval)
  have t: "transition_issue 400 ?i ex_worker PWD_COMPLETED (Some ?p) = Inr ex_done"
    by (simp add: transition_issue_def ex_done_def ex_issue_def ex_worker_def)
  from completion_fields_set_once [OF reachable_ex_working m]
  have "\<forall>now u target payload issue'.
            transition_issue now ?i u target payload = Inr issue' \<longrightarrow>
            (if target = PWD_COMPLETED
             then status ?i = PWD_WORKING \<and> completed_at ?i = None \<and>
                  (\<exists>p. payload = Some p \<and>
                       completion_description issue' = Some (payload_description p) \<and>
                       completion_photo_url issue' = payload_photo p) \<and>
                  completed_at issue' = Some now \<and>
                  completed_by_id issue' = Some (user_pk u)
             else completion_description issue' = completion_description ?i \<and>
                  completion_photo_url issue' = completion_photo_url ?i \<and>
                  completed_at issue' = completed_at ?i \<and>
                  completed_by_id issue' = completed_by_id ?i)"
    by (rule conjunct2)
  from this [rule_format, OF t]
  have "completed_at ?i = None \<and>
        completion_description ex_done = Some (ustr ''Pipe replaced'') \<and>
        completed_at ex_done = Some 400 \<and>
        completed_by_id ex_done = Some (user_pk ex_worker)"
    by auto
  with reachable_ex_working m t show ?thesis by blast
qed

text \<open>
  Claim C6 as stated says that the four completion fields are all null or all
  non-null. The completion photo is optional: the example issue, completed without a
  photo, has a null \<open>completion_photo_url\<close> next to the three other fields set.
\<close>

theorem completion_photo_missing_counterexample:
  "reachable ex_completed \<and> issues ex_completed = [ex_done] \<and>
   completion_photo_url ex_done = None \<and>
   completion_description ex_done = Some (ustr ''Pipe replaced'') \<and>
   completed_at ex_done = Some 400 \<and> completed_by_id ex_done = Some 9"
  using reachable_ex_completed
  by (simp add: ex_completed_eval ex_done_def)

section \<open>Properties of normalize_phone_number\<close>

lemma ustr_plus: "ustr ''+'' = [43]" by (simp add: ustr_def)
lemma ustr_91: "ustr ''91'' = [57, 49]" by (simp add: ustr_def)

lemma normalize_phone_number_shape:
  assumes "is_digit 57" and "is_digit 49"
  shows "\<exists>ds. normalize_phone_number is_digit phone = 43 # ds \<and> list_all is_digit ds"
  using assms
  by (auto simp: normalize_phone_number_def ustr_plus ustr_91 Let_def list_all_iff)

text \<open>
  Claim C8. For every input string, \<open>normalize_phone_number\<close> returns \<open>+\<close> followed only by
  characters of the digit class, and applying it to its own output returns that output.
  The digit class is any class that holds the digits 9 and 1, which the function writes
  itself.
\<close>

theorem normalize_phone_number_plus_digits_idempotent:
  assumes "is_digit (of_char CHR ''9'')" and "is_digit (of_char CHR ''1'')"
  shows "(\<exists>ds. normalize_phone_number is_digit phone = ustr ''+'' @ ds \<and> list_all is_digit ds) \<and>
         normalize_phone_number is_digit (normalize_phone_number is_digit phone) =
           normalize_phone_number is_digit phone"
proof -
  from assms have d: "is_digit 57" "is_digit 49" by simp_all
  from normalize_phone_number_shape [OF d] obtain ds where
    ds: "normalize_phone_number is_digit phone = 43 # ds" "list_all is_digit ds"
    by blast
  have keep: "filter is_digit ds = ds"
    using ds(2) by (simp add: list_all_iff)
  have "normalize_phone_number is_digit (43 # ds) = 43 # ds"
    by (simp add: normalize_phone_number_def startswith_def ustr_plus keep)
  with ds show ?thesis by (simp add: ustr_plus)
qed

text \<open>The examples of the docstring, with the ASCII digits.\<close>

theorem normalize_phone_number_plus_digits_idempotent_witness:
  "ascii_digit (of_char CHR ''9'') \<and> ascii_digit (of_char CHR ''1'') \<and>
   normalize_phone_number ascii_digit (ustr ''+91 98765 43210'') = ustr ''+919876543210'' \<and>
   normalize_phone_number ascii_digit (ustr ''9876543210'') = ustr ''+919876543210'' \<and>
   normalize_phone_number ascii_digit (ustr ''919876543210'') = ustr ''+919876543210'' \<and>
   normalize_phone_number ascii_digit
     (normalize_phone_number ascii_digit (ustr ''9876543210'')) =
     normalize_phone_number ascii_digit (ustr ''9876543210'')"
proof -
  have h9: "ascii_digit (of_char CHR ''9'')" by (simp add: ascii_digit_def)
  have h1: "ascii_digit (of_char CHR ''1'')" by (simp add: ascii_digit_def)
  have e1: "normalize_phone_number ascii_digit (ustr ''+91 98765 43210'') = ustr ''+919876543210''"
    by (simp add: normalize_phone_number_def startswith_def ustr_def ascii_digit_def)
  have e2: "normalize_phone_number ascii_digit (ustr ''9876543210'') = ustr ''+919876543210''"
    by (simp add: normalize_phone_number_def startswith_def ustr_def ascii_digit_def)
  have e3: "normalize_phone_number ascii_digit (ustr ''919876543210'') = ustr ''+919876543210''"
    by (simp add: normalize_phone_number_def startswith_def ustr_def ascii_digit_def)
  from normalize_phone_number_plus_digits_idempotent [OF h9 h1, of "ustr ''9876543210''"]
  have idem: "normalize_phone_number ascii_digit
     (normalize_phone_number ascii_digit (ustr ''9876543210'')) =
     normalize_phone_number ascii_digit (ustr ''9876543210'')"
    by blast
  show ?thesis
    using h9 h1 e1 e2 e3 idem by blast
qed

section \<open>Properties of get_issues_for_map\<close>

subsection \<open>The distance is the haversine formula\<close>

lemma sin_sq_half: "(sin (x / 2))\<^sup>2 = (1 - cos x) / 2" for x :: real
  using cos_double_sin [of "x / 2"] by simp

lemma cos_radians_nonneg:
  assumes "- 90 \<le> d" and "d \<le> 90"
  shows "0 \<le> cos (radians d)"
proof (rule cos_ge_zero)
  have lo: "pi * (- 90) \<le> pi * d"
    using assms(1) pi_ge_zero by (rule mult_left_mono)
  have hi: "pi * d \<le> pi * 90"
    using assms(2) pi_ge_zero by (rule mult_left_mono)
  show "- (pi / 2) \<le> radians d"
    using lo by (simp add: radians_def mult.commute)
  show "radians d \<le> pi / 2"
    using hi by (simp add: radians_def mult.commute)
qed

lemma haversine_term_range:
  fixes p1 p2 dl :: real
  assumes c1: "0 \<le> cos p1" and c2: "0 \<le> cos p2"
  shows "0 \<le> (sin ((p2 - p1) / 2))\<^sup>2 + cos p1 * cos p2 * (sin (dl / 2))\<^sup>2"
    and "(sin ((p2 - p1) / 2))\<^sup>2 + cos p1 * cos p2 * (sin (dl / 2))\<^sup>2 \<le> 1"
proof -
  have prod: "0 \<le> cos p1 * cos p2" using c1 c2 by simp
  show "0 \<le> (sin ((p2 - p1) / 2))\<^sup>2 + cos p1 * cos p2 * (sin (dl / 2))\<^sup>2"
    using prod by simp
  have s1: "(sin (dl / 2))\<^sup>2 \<le> 1"
    using abs_sin_le_one [of "dl / 2"] by (simp add: abs_square_le_1)
  have "cos p1 * cos p2 * (sin (dl / 2))\<^sup>2 \<le> cos p1 * cos p2 * 1"
    using prod s1 by (rule mult_left_mono [rotated])
  then have "(sin ((p2 - p1) / 2))\<^sup>2 + cos p1 * cos p2 * (sin (dl / 2))\<^sup>2
        \<le> (1 - cos (p2 - p1)) / 2 + cos p1 * cos p2"
    by (simp add: sin_sq_half)
  also have "\<dots> = (1 + cos (p1 + p2)) / 2"
    by (simp add: cos_diff cos_add field_simps)
  also have "\<dots> \<le> 1"
    using cos_le_one [of "p1 + p2"] by simp
  finally show "(sin ((p2 - p1) / 2))\<^sup>2 + cos p1 * cos p2 * (sin (dl / 2))\<^sup>2 \<le> 1" .
qed



lemma great_circle_km_central_angle:
  assumes "- 90 \<le> lat1" "lat1 \<le> 90" "- 90 \<le> lat2" "lat2 \<le> 90"
  shows "great_circle_km lat1 lon1 lat2 lon2 =
         6371 * arccos (sin (radians lat1) * sin (radians lat2) +
                        cos (radians lat1) * cos (radians lat2) *
                        cos (radians lon2 - radians lon1))"
proof -
  let ?p1 = "radians lat1" and ?p2 = "radians lat2"
  let ?dl = "radians lon2 - radians lon1"
  let ?a = "(sin ((?p2 - ?p1) / 2))\<^sup>2 + cos ?p1 * cos ?p2 * (sin (?dl / 2))\<^sup>2"
  let ?t = "arcsin (sqrt ?a)"
  have c1: "0 \<le> cos ?p1" and c2: "0 \<le> cos ?p2"
    using assms by (simp_all add: cos_radians_nonneg)
  have a0: "0 \<le> ?a" and a1: "?a \<le> 1"
    using haversine_term_range [OF c1 c2] by blast+
  have r0: "0 \<le> sqrt ?a" using a0 by simp
  have r1: "sqrt ?a \<le> 1" using a1 by simp
  have rm: "- 1 \<le> sqrt ?a" using r0 by linarith
  have t0: "0 \<le> ?t" using r0 r1 by (simp add: arcsin_nonneg)
  have t1: "?t \<le> pi / 2" using rm r1 by (rule arcsin_ubound)
  have "cos (2 * ?t) = 1 - 2 * (sin ?t)\<^sup>2" by (rule cos_double_sin)
  also have "sin ?t = sqrt ?a" using rm r1 by (rule sin_arcsin)
  also have "(sqrt ?a)\<^sup>2 = ?a" using a0 by simp
  also have "1 - 2 * ?a =
      sin ?p1 * sin ?p2 + cos ?p1 * cos ?p2 * cos ?dl"
    by (simp add: sin_sq_half cos_diff field_simps)
  finally have eq: "cos (2 * ?t) = sin ?p1 * sin ?p2 + cos ?p1 * cos ?p2 * cos ?dl" .
  have "arccos (cos (2 * ?t)) = 2 * ?t"
    using t0 t1 by (intro arccos_cos) simp_all
  then have "arccos (sin ?p1 * sin ?p2 + cos ?p1 * cos ?p2 * cos ?dl) = 2 * ?t"
    by (simp only: eq)
  then show ?thesis
    by (simp add: great_circle_km_def hav_def)
qed

text \<open>
  \<open>create_issue\<close> stores a latitude only after the check of the form field, so it keeps
  every stored latitude between -90 and 90.
\<close>

lemma create_issue_latitude_range:
  assumes "\<forall>i\<in>set (issues w). - 90 \<le> latitude i \<and> latitude i \<le> 90"
  shows "\<forall>i\<in>set (issues (fst (create_issue s st now ity descr lat lon lid_opt photos cu w))).
           - 90 \<le> latitude i \<and> latitude i \<le> 90"
proof (cases "form_ok descr lat lon \<and> int (length photos) \<le> max_photos_per_issue s \<and>
              validate_photos s photos = None")
  case True
  then have v: "form_ok descr lat lon" "int (length photos) \<le> max_photos_per_issue s"
      "validate_photos s photos = None"
    by blast+
  have r: "- 90 \<le> lat \<and> lat \<le> 90" using v(1) by (simp add: form_ok_def)
  show ?thesis
    using assms r by (simp add: create_issue_valid_issues [OF v])
next
  case False
  then have "fst (create_issue s st now ity descr lat lon lid_opt photos cu w) = w"
    by (auto simp: create_issue_def split: option.splits)
  then show ?thesis using assms by simp
qed

subsection \<open>The two distances of the example\<close>






subsection \<open>The issues within the radius\<close>



end
